theory Spec2Isabelle
  imports Main "HOL-Library.Word"
begin

unbundle bit_operations_syntax

section \<open>JavaScript strings\<close>

text \<open>
  A JavaScript string is modelled as a \<^typ>\<open>string\<close>: a list of code units, each below 256.
  Case conversion is modelled on the ASCII letters; every other code unit is left as it is.
  \<open>String.prototype.trim\<close> removes the white space and line terminators that exist in
  this range: TAB, LF, VT, FF, CR, SPACE and NBSP.
\<close>

definition isWhiteSpace :: "char \<Rightarrow> bool" where
  "isWhiteSpace c = (c \<in> set [CHR 0x09, CHR 0x0A, CHR 0x0B, CHR 0x0C, CHR 0x0D, CHR 0x20, CHR 0xA0])"

definition trim :: "string \<Rightarrow> string" where
  "trim s = rev (dropWhile isWhiteSpace (rev (dropWhile isWhiteSpace s)))"

definition toLowerChar :: "char \<Rightarrow> char" where
  "toLowerChar c =
     (case map_of (zip ''ABCDEFGHIJKLMNOPQRSTUVWXYZ'' ''abcdefghijklmnopqrstuvwxyz'') c of
        Some l \<Rightarrow> l
      | None \<Rightarrow> c)"

definition toUpperChar :: "char \<Rightarrow> char" where
  "toUpperChar c =
     (case map_of (zip ''abcdefghijklmnopqrstuvwxyz'' ''ABCDEFGHIJKLMNOPQRSTUVWXYZ'') c of
        Some u \<Rightarrow> u
      | None \<Rightarrow> c)"

definition toLowerCase :: "string \<Rightarrow> string" where
  "toLowerCase s = map toLowerChar s"

definition toUpperCase :: "string \<Rightarrow> string" where
  "toUpperCase s = map toUpperChar s"

text \<open>\<open>s.split('-')[0]\<close>: the part of \<open>s\<close> before the first hyphen (all of \<open>s\<close> when
  there is none; the empty string when \<open>s\<close> is empty or starts with a hyphen).\<close>

definition splitHyphenFirst :: "string \<Rightarrow> string" where
  "splitHyphenFirst s = takeWhile (\<lambda>c. c \<noteq> CHR ''-'') s"

text \<open>Truthiness of a possibly undefined string: \<open>undefined\<close>, \<open>null\<close> and \<open>""\<close> are falsy.\<close>

fun truthy :: "string option \<Rightarrow> bool" where
  "truthy None = False"
| "truthy (Some s) = (s \<noteq> [])"

section \<open>The DeepL provider (src/lib/translation/providers/deepl.ts)\<close>

fun toDeepLLanguage :: "string \<Rightarrow> bool \<Rightarrow> string" where
  "toDeepLLanguage code isTarget =
     (let upperCode = toUpperCase code in
      if isTarget then
        (if upperCode = ''EN'' then ''EN-US''
         else if upperCode = ''PT'' then ''PT-BR''
         else upperCode)
      else upperCode)"

text \<open>The body of a request to \<open>/v2/translate\<close>; \<open>source_lang\<close> is present only when the
  caller names a source language.\<close>

record deepl_request =
  text_field :: "string list"
  target_lang :: string
  source_lang :: "string option"

text \<open>
  What \<open>fetch\<close> and the reading of the response can do: throw (a network error), answer
  with a status that is not OK, answer OK with a body that is not JSON (\<open>response.json()\<close>
  throws), or answer OK with JSON data whose \<open>translations\<close> field is missing
  (\<open>None\<close>) or is the list of the \<open>text\<close> fields of its elements.
\<close>

datatype fetch_outcome =
    NetworkError
  | NotOk nat string
  | BadJson
  | JsonData "string list option"

type_synonym fetch = "deepl_request \<Rightarrow> fetch_outcome"

text \<open>\<open>translateText\<close> of the provider: the result, and the requests that were sent.\<close>

definition translateText :: "string option \<Rightarrow> fetch \<Rightarrow> string \<Rightarrow> string \<Rightarrow> string
    \<Rightarrow> string \<times> deepl_request list" where
  "translateText DEEPL_API_KEY fetch text sourceLang targetLang =
     (if \<not> truthy DEEPL_API_KEY then (text, [])
      else if trim text = [] then (text, [])
      else
        let request = \<lparr>text_field = [text],
                        target_lang = toDeepLLanguage targetLang True,
                        source_lang = Some (toDeepLLanguage sourceLang False)\<rparr>
        in case fetch request of
             NetworkError \<Rightarrow> (text, [request])
           | NotOk status errorText \<Rightarrow> (text, [request])
           | BadJson \<Rightarrow> (text, [request])
           | JsonData None \<Rightarrow> (text, [request])
           | JsonData (Some translations) \<Rightarrow>
               (case translations of
                  [] \<Rightarrow> (text, [request])
                | t # _ \<Rightarrow> (t, [request])))"

text \<open>The \<open>forEach\<close> that collects the indices and the texts of the entries that are not
  blank.\<close>

definition nonEmptyEntries :: "string list \<Rightarrow> (nat \<times> string) list" where
  "nonEmptyEntries texts = filter (\<lambda>(index, text). trim text \<noteq> []) (enumerate 0 texts)"

text \<open>The \<open>forEach\<close> that writes each translation at the index recorded for it.\<close>

definition writeTranslations :: "nat list \<Rightarrow> string list \<Rightarrow> string list \<Rightarrow> string list" where
  "writeTranslations nonEmptyIndices translations result =
     fold (\<lambda>(index, translation) result. result[nonEmptyIndices ! index := translation])
       (enumerate 0 translations) result"

text \<open>The request body of a batch: \<open>source_lang\<close> only when a source language is given.\<close>

definition batchRequestBody :: "string list \<Rightarrow> string option \<Rightarrow> string \<Rightarrow> deepl_request" where
  "batchRequestBody nonEmptyTexts sourceLang targetLang =
     \<lparr>text_field = nonEmptyTexts,
      target_lang = toDeepLLanguage targetLang True,
      source_lang = (case sourceLang of
                       None \<Rightarrow> None
                     | Some s \<Rightarrow> if s \<noteq> [] then Some (toDeepLLanguage s False) else None)\<rparr>"

definition translateBatch :: "string option \<Rightarrow> fetch \<Rightarrow> string list \<Rightarrow> string option \<Rightarrow> string
    \<Rightarrow> string list \<times> deepl_request list" where
  "translateBatch DEEPL_API_KEY fetch texts sourceLang targetLang =
     (if \<not> truthy DEEPL_API_KEY then (texts, [])
      else if length texts = 0 then ([], [])
      else
        let nonEmptyIndices = map fst (nonEmptyEntries texts);
            nonEmptyTexts = map snd (nonEmptyEntries texts)
        in if length nonEmptyTexts = 0 then (texts, [])
           else
             let requestBody = batchRequestBody nonEmptyTexts sourceLang targetLang
             in case fetch requestBody of
                  NetworkError \<Rightarrow> (texts, [requestBody])
                | NotOk status errorText \<Rightarrow> (texts, [requestBody])
                | BadJson \<Rightarrow> (texts, [requestBody])
                | JsonData None \<Rightarrow> (texts, [requestBody])
                | JsonData (Some translations) \<Rightarrow>
                    (if length translations = length nonEmptyTexts
                     then (writeTranslations nonEmptyIndices translations texts, [requestBody])
                     else (texts, [requestBody])))"

text \<open>When the batch call of the provider fails: no credential, a network error, a status
  that is not OK, a body that cannot be read, or a number of translations other than the
  number of texts sent.\<close>

definition batchFails :: "string option \<Rightarrow> fetch_outcome \<Rightarrow> nat \<Rightarrow> bool" where
  "batchFails key outcome sent =
     (\<not> truthy key \<or>
      (case outcome of
         NetworkError \<Rightarrow> True
       | NotOk status errorText \<Rightarrow> True
       | BadJson \<Rightarrow> True
       | JsonData None \<Rightarrow> True
       | JsonData (Some translations) \<Rightarrow> length translations \<noteq> sent))"

section \<open>The server-side translation cache (src/lib/translation/cache.ts)\<close>

text \<open>
  A row of the \<open>translation\<close> table, without the columns of its unique key
  \<open>(entityType, entityId, fieldName, targetLanguage)\<close>; the table maps keys to rows.
\<close>

text \<open>JavaScript numbers are left abstract: the cache only stores and copies them.\<close>

typedecl number

record translation_row =
  row_sourceLanguage :: string
  row_sourceHash :: string
  row_translatedContent :: string
  row_modelProvider :: string
  row_modelVersion :: string
  row_confidenceScore :: "number option"

type_synonym translation_key = "string \<times> string \<times> string \<times> string"

type_synonym translation_table = "translation_key \<rightharpoonup> translation_row"

record SetCachedTranslationParams =
  p_entityType :: string
  p_entityId :: string
  p_fieldName :: string
  p_sourceLanguage :: string
  p_sourceHash :: string
  p_targetLanguage :: string
  p_translatedContent :: string
  p_modelProvider :: string
  p_modelVersion :: string
  p_confidenceScore :: "number option"

text \<open>A query of the database may throw; both functions catch it. \<open>findThrows\<close> and
  \<open>upsertThrows\<close> say whether the query of this call does.\<close>

definition getCachedTranslationWithHash ::
    "bool \<Rightarrow> translation_table \<Rightarrow> string \<Rightarrow> string \<Rightarrow> string \<Rightarrow> string \<Rightarrow> string \<Rightarrow> string option" where
  "getCachedTranslationWithHash findThrows table entityType entityId fieldName targetLanguage sourceHash =
     (if findThrows then None
      else case table (entityType, entityId, fieldName, targetLanguage) of
             None \<Rightarrow> None
           | Some translation \<Rightarrow>
               if row_sourceHash translation = sourceHash
               then Some (row_translatedContent translation)
               else None)"

text \<open>The upsert creates the row, or updates the row that is there; an update with an
  undefined \<open>confidenceScore\<close> leaves that column as it is.\<close>

definition setCachedTranslation ::
    "bool \<Rightarrow> translation_table \<Rightarrow> SetCachedTranslationParams \<Rightarrow> translation_table" where
  "setCachedTranslation upsertThrows table params =
     (if upsertThrows then table
      else
        let key = (p_entityType params, p_entityId params, p_fieldName params, p_targetLanguage params)
        in table(key \<mapsto>
             \<lparr>row_sourceLanguage = p_sourceLanguage params,
              row_sourceHash = p_sourceHash params,
              row_translatedContent = p_translatedContent params,
              row_modelProvider = p_modelProvider params,
              row_modelVersion = p_modelVersion params,
              row_confidenceScore =
                (case table key of
                   None \<Rightarrow> p_confidenceScore params
                 | Some old \<Rightarrow>
                     (case p_confidenceScore params of
                        None \<Rightarrow> row_confidenceScore old
                      | Some c \<Rightarrow> Some c))\<rparr>))"

section \<open>The server-side orchestrator (src/lib/translation/index.ts)\<close>

definition MODEL_PROVIDER :: string where "MODEL_PROVIDER = ''deepl''"

definition MODEL_VERSION :: string where "MODEL_VERSION = ''v2''"

record TranslateForUserParams =
  entityType :: string
  entityId :: string
  fieldName :: string
  content :: string
  sourceLanguage :: string
  targetLanguage :: string

text \<open>What the server reads from its surroundings during one call: the credential, the
  answer of the provider, and whether the two database queries throw.\<close>

record server_env =
  DEEPL_API_KEY :: "string option"
  deeplFetch :: fetch
  findThrows :: bool
  upsertThrows :: bool

text \<open>
  \<open>translateForUser\<close> returns the text and the table after the call. \<open>hashContent\<close>
  (SHA-256 in hexadecimal, from the \<open>crypto\<close> library) is a parameter. The write to the
  cache is not awaited, but it is always issued when the provider has been called.
\<close>

definition translateForUser ::
    "(string \<Rightarrow> string) \<Rightarrow> server_env \<Rightarrow> translation_table \<Rightarrow> TranslateForUserParams
     \<Rightarrow> string \<times> translation_table" where
  "translateForUser hashContent env table params =
     (if sourceLanguage params = targetLanguage params then (content params, table)
      else if content params = [] \<or> trim (content params) = [] then (content params, table)
      else
        let contentHashValue = hashContent (content params);
            cached = getCachedTranslationWithHash (findThrows env) table
                       (entityType params) (entityId params) (fieldName params)
                       (targetLanguage params) contentHashValue
        in if truthy cached then (the cached, table)
           else
             let translated = fst (translateText (DEEPL_API_KEY env) (deeplFetch env)
                                     (content params) (sourceLanguage params) (targetLanguage params))
             in (translated,
                 setCachedTranslation (upsertThrows env) table
                   \<lparr>p_entityType = entityType params,
                    p_entityId = entityId params,
                    p_fieldName = fieldName params,
                    p_sourceLanguage = sourceLanguage params,
                    p_sourceHash = contentHashValue,
                    p_targetLanguage = targetLanguage params,
                    p_translatedContent = translated,
                    p_modelProvider = MODEL_PROVIDER,
                    p_modelVersion = MODEL_VERSION,
                    p_confidenceScore = None\<rparr>))"

text \<open>The request that \<open>translateText\<close> sends for one text.\<close>

definition singleRequestBody :: "string \<Rightarrow> string \<Rightarrow> string \<Rightarrow> deepl_request" where
  "singleRequestBody text sourceLang targetLang =
     \<lparr>text_field = [text],
      target_lang = toDeepLLanguage targetLang True,
      source_lang = Some (toDeepLLanguage sourceLang False)\<rparr>"

text \<open>The provider fails for a single text: no credential, a network error, a status that
  is not OK, or a body without a translation.\<close>

definition translationFails :: "string option \<Rightarrow> fetch_outcome \<Rightarrow> bool" where
  "translationFails key outcome =
     (\<not> truthy key \<or>
      (case outcome of
         NetworkError \<Rightarrow> True
       | NotOk status errorText \<Rightarrow> True
       | BadJson \<Rightarrow> True
       | JsonData None \<Rightarrow> True
       | JsonData (Some translations) \<Rightarrow> translations = []))"

text \<open>The provider is reached: the languages differ, the content is not blank, and the
  cache has no usable entry.\<close>

definition providerReached :: "(string \<Rightarrow> string) \<Rightarrow> server_env \<Rightarrow> translation_table
    \<Rightarrow> TranslateForUserParams \<Rightarrow> bool" where
  "providerReached hashContent env table params =
     (sourceLanguage params \<noteq> targetLanguage params \<and>
      trim (content params) \<noteq> [] \<and>
      \<not> truthy (getCachedTranslationWithHash (findThrows env) table
                  (entityType params) (entityId params) (fieldName params)
                  (targetLanguage params) (hashContent (content params))))"

definition unreachableProvider :: fetch where
  "unreachableProvider request = NetworkError"

definition helloParams :: TranslateForUserParams where
  "helloParams = \<lparr>entityType = ''Post'', entityId = ''p1'', fieldName = ''title'',
                   content = ''Hello'', sourceLanguage = ''en'', targetLanguage = ''de''\<rparr>"

definition offlineEnv :: server_env where
  "offlineEnv = \<lparr>DEEPL_API_KEY = Some ''key'', deeplFetch = unreachableProvider,
                  findThrows = False, upsertThrows = False\<rparr>"

section \<open>The translation endpoint (src/app/api/translate/route.ts)\<close>

subsection \<open>The rate limiter\<close>

record rate_record =
  count :: nat
  resetTime :: int

type_synonym request_counts = "string \<rightharpoonup> rate_record"

definition RATE_LIMIT :: nat where "RATE_LIMIT = 100"

definition RATE_WINDOW :: int where "RATE_WINDOW = 60 * 1000"

record rate_limit_info =
  allowed :: bool
  remaining :: int

text \<open>\<open>getRateLimitInfo\<close> reads the clock (\<open>now\<close>, in milliseconds) and the map of
  counters, and returns its answer with the map after the call.\<close>

definition getRateLimitInfo :: "int \<Rightarrow> request_counts \<Rightarrow> string \<Rightarrow> rate_limit_info \<times> request_counts" where
  "getRateLimitInfo now requestCounts ip =
     (let fresh = (\<lparr>allowed = True, remaining = int RATE_LIMIT - 1\<rparr>,
                   requestCounts(ip \<mapsto> \<lparr>count = 1, resetTime = now + RATE_WINDOW\<rparr>))
      in case requestCounts ip of
           None \<Rightarrow> fresh
         | Some rec \<Rightarrow>
             if now > resetTime rec then fresh
             else if count rec \<ge> RATE_LIMIT then (\<lparr>allowed = False, remaining = 0\<rparr>, requestCounts)
             else (\<lparr>allowed = True, remaining = int RATE_LIMIT - int (count rec + 1)\<rparr>,
                   requestCounts(ip \<mapsto> rec\<lparr>count := count rec + 1\<rparr>)))"

subsection \<open>Language codes of the endpoint\<close>

text \<open>
  A property read of an object literal also finds what the object inherits from
  \<open>Object.prototype\<close>: for these keys the value read is a function or an object, not a
  string and not \<open>undefined\<close>.
\<close>

definition objectPrototypeKeys :: "string list" where
  "objectPrototypeKeys =
     [''constructor'', ''__defineGetter__'', ''__defineSetter__'', ''hasOwnProperty'',
      ''__lookupGetter__'', ''__lookupSetter__'', ''isPrototypeOf'', ''propertyIsEnumerable'',
      ''toString'', ''valueOf'', ''__proto__'', ''toLocaleString'']"

datatype js_value = Str string | NotAString

definition readProperty :: "(string \<times> string) list \<Rightarrow> string \<Rightarrow> js_value option" where
  "readProperty obj key =
     (case map_of obj key of
        Some v \<Rightarrow> Some (Str v)
      | None \<Rightarrow> if key \<in> set objectPrototypeKeys then Some NotAString else None)"

definition ROUTE_DEEPL_TARGET_MAP :: "(string \<times> string) list" where
  "ROUTE_DEEPL_TARGET_MAP =
     [(''en'', ''EN-US''), (''en-us'', ''EN-US''), (''en-gb'', ''EN-GB''),
      (''pt'', ''PT-BR''), (''pt-br'', ''PT-BR''), (''pt-pt'', ''PT-PT''),
      (''zh'', ''ZH-HANS''), (''zh-cn'', ''ZH-HANS''), (''zh-tw'', ''ZH-HANT''),
      (''de'', ''DE''), (''es'', ''ES''), (''fr'', ''FR''), (''ja'', ''JA''), (''ko'', ''KO''),
      (''it'', ''IT''), (''nl'', ''NL''), (''pl'', ''PL''), (''ru'', ''RU''), (''ar'', ''AR''),
      (''bg'', ''BG''), (''cs'', ''CS''), (''da'', ''DA''), (''el'', ''EL''), (''et'', ''ET''),
      (''fi'', ''FI''), (''hu'', ''HU''), (''id'', ''ID''), (''lt'', ''LT''), (''lv'', ''LV''),
      (''nb'', ''NB''), (''ro'', ''RO''), (''sk'', ''SK''), (''sl'', ''SL''), (''sv'', ''SV''),
      (''tr'', ''TR''), (''uk'', ''UK'')]"

definition routeToDeepLTarget :: "string \<Rightarrow> js_value" where
  "routeToDeepLTarget locale =
     (let normalized = toLowerCase locale in
      case readProperty ROUTE_DEEPL_TARGET_MAP normalized of
        Some v \<Rightarrow> v
      | None \<Rightarrow>
          (case readProperty ROUTE_DEEPL_TARGET_MAP (splitHyphenFirst normalized) of
             Some v \<Rightarrow> v
           | None \<Rightarrow> Str ''EN-US''))"

subsection \<open>The handler of POST\<close>

text \<open>
  The request: the two headers the handler reads, and its body.

  The body of a request is read once. \<open>request.json()\<close> reads it and parses it;
  \<open>request.clone()\<close> throws a \<open>TypeError\<close> when the body has been read before. So what
  the \<open>catch\<close> block of the handler does depends on the body:
  \<^item> \<open>NoBody\<close>: the request has no body. \<open>request.json()\<close> throws (there is nothing to
    parse) and nothing was read, so \<open>request.clone()\<close> succeeds;
  \<^item> \<open>Malformed\<close>: the body is not JSON. \<open>request.json()\<close> throws after reading it;
  \<^item> \<open>JsonNull\<close>: the body is the JSON value \<open>null\<close>, whose destructuring throws;
  \<^item> \<open>JsonObject\<close>: any other JSON value, with the three fields the handler reads.

  \<open>req_texts\<close> is \<open>None\<close> when the field \<open>texts\<close> is missing or not an array (the elements
  of the array are strings, as \<open>interface TranslateRequest\<close> declares), \<open>req_targetLang\<close>
  is \<open>None\<close> when \<open>targetLang\<close> is missing or not a string. \<open>req_sourceLang\<close> is \<open>None\<close>
  when \<open>sourceLang\<close> is missing or a falsy value that is not a string, \<open>Some (Str s)\<close>
  when it is the string \<open>s\<close>, and \<open>Some NotAString\<close> when it is a truthy value that is
  not a string.
\<close>

record TranslateRequest =
  req_texts :: "string list option"
  req_targetLang :: "string option"
  req_sourceLang :: "js_value option"

datatype request_body =
    NoBody
  | Malformed
  | JsonNull
  | JsonObject TranslateRequest

record next_request =
  x_forwarded_for :: "string option"
  x_real_ip :: "string option"
  json :: request_body

datatype response_json =
    ErrorJson string
  | TranslationsJson "string list" js_value "js_value option"
  | SkippedJson "string list"
  | FallbackJson "string list"

record next_response =
  status :: nat
  headers :: "(string \<times> string) list"
  payload :: response_json

text \<open>What the handler throws instead of answering.\<close>

datatype route_exception = TypeError

definition clientIp :: "next_request \<Rightarrow> string" where
  "clientIp request =
     (if truthy (x_forwarded_for request) then the (x_forwarded_for request)
      else if truthy (x_real_ip request) then the (x_real_ip request)
      else ''unknown'')"

definition rateLimitedResponse :: next_response where
  "rateLimitedResponse =
     \<lparr>status = 429,
      headers = [(''X-RateLimit-Remaining'', ''0''), (''Retry-After'', ''60'')],
      payload = ErrorJson ''Rate limit exceeded. Please try again later.''\<rparr>"

definition badRequest :: "string \<Rightarrow> next_response" where
  "badRequest message = \<lparr>status = 400, headers = [], payload = ErrorJson message\<rparr>"

text \<open>
  The \<open>catch\<close> block: \<open>await request.clone().json().catch(() => ({ texts: [] }))\<close> and
  then the answer with status 500. Everything that throws inside the \<open>try\<close> block does so
  at \<open>request.json()\<close> or after it. When the body has been read, \<open>request.clone()\<close> throws
  before \<open>.catch\<close> is attached, and the handler throws. When the request has no body,
  the clone is made, its \<open>json()\<close> is rejected like the first one, and \<open>body.texts\<close> is the
  empty array.
\<close>

definition serverError :: next_response where
  "serverError = \<lparr>status = 500, headers = [], payload = FallbackJson []\<rparr>"

definition catchBlock :: "bool \<Rightarrow> route_exception + next_response" where
  "catchBlock bodyUsed = (if bodyUsed then Inl TypeError else Inr serverError)"

text \<open>Decimal digits of a number, for the header \<open>X-RateLimit-Remaining\<close>.\<close>

fun digitsOf :: "nat \<Rightarrow> nat \<Rightarrow> string" where
  "digitsOf 0 n = []"
| "digitsOf (Suc fuel) n =
     (if n < 10 then [char_of (48 + n)]
      else digitsOf fuel (n div 10) @ [char_of (48 + n mod 10)])"

definition numberToString :: "int \<Rightarrow> string" where
  "numberToString i =
     (if i < 0 then CHR ''-'' # digitsOf (Suc (nat (- i))) (nat (- i))
      else digitsOf (Suc (nat i)) (nat i))"

text \<open>
  What follows the rate limit in the handler: reading the body, validation, the
  shortcut for equal languages, and the call of the provider. \<open>Inl\<close> is the handler
  throwing, \<open>Inr\<close> its answer. After a body that parsed, a \<open>TypeError\<close> comes from
  \<open>toDeepLTarget(sourceLang)\<close> when \<open>sourceLang\<close> is truthy and has no \<open>toLowerCase\<close>, and
  from \<open>split\<close> on a language that \<open>toDeepLTarget\<close> read from \<open>Object.prototype\<close>.
\<close>

definition handleBody :: "server_env \<Rightarrow> rate_limit_info \<Rightarrow> request_body
    \<Rightarrow> route_exception + next_response" where
  "handleBody env rateLimit body =
     (case body of
        NoBody \<Rightarrow> catchBlock False
      | Malformed \<Rightarrow> catchBlock True
      | JsonNull \<Rightarrow> catchBlock True
      | JsonObject b \<Rightarrow>
          (case req_texts b of
             None \<Rightarrow> Inr (badRequest ''texts must be a non-empty array of strings'')
           | Some ts \<Rightarrow>
               if length ts = 0 then Inr (badRequest ''texts must be a non-empty array of strings'')
               else if \<not> truthy (req_targetLang b)
               then Inr (badRequest ''targetLang is required and must be a string'')
               else if length ts > 100 then Inr (badRequest ''Maximum 100 texts per request'')
               else
                 let deeplTargetLang = routeToDeepLTarget (the (req_targetLang b))
                 in case req_sourceLang b of
                      Some NotAString \<Rightarrow> catchBlock True
                    | sourceLang \<Rightarrow>
                        let deeplSourceLang =
                              (case sourceLang of
                                 Some (Str s) \<Rightarrow> if s \<noteq> [] then Some (routeToDeepLTarget s) else None
                               | _ \<Rightarrow> None)
                        in case (deeplTargetLang, deeplSourceLang) of
                             (NotAString, Some src) \<Rightarrow> catchBlock True
                           | (Str tgt, Some NotAString) \<Rightarrow> catchBlock True
                           | (Str tgt, Some (Str src)) \<Rightarrow>
                               if toLowerCase (splitHyphenFirst tgt) = toLowerCase (splitHyphenFirst src)
                               then Inr \<lparr>status = 200, headers = [], payload = SkippedJson ts\<rparr>
                               else
                                 Inr \<lparr>status = 200,
                                      headers = [(''X-RateLimit-Remaining'',
                                                  numberToString (remaining rateLimit))],
                                      payload = TranslationsJson
                                        (fst (translateBatch (DEEPL_API_KEY env) (deeplFetch env)
                                                ts (Some src) tgt))
                                        deeplTargetLang deeplSourceLang\<rparr>
                           | (Str tgt, None) \<Rightarrow>
                               Inr \<lparr>status = 200,
                                    headers = [(''X-RateLimit-Remaining'',
                                                numberToString (remaining rateLimit))],
                                    payload = TranslationsJson
                                      (fst (translateBatch (DEEPL_API_KEY env) (deeplFetch env)
                                              ts None tgt))
                                      deeplTargetLang deeplSourceLang\<rparr>
                           | (NotAString, None) \<Rightarrow>
                               Inr \<lparr>status = 200,
                                    headers = [(''X-RateLimit-Remaining'',
                                                numberToString (remaining rateLimit))],
                                    payload = TranslationsJson ts deeplTargetLang deeplSourceLang\<rparr>))"

text \<open>The handler. The counter of the client is updated before the body is read, so it
  is updated also when the handler throws.\<close>

definition POST :: "server_env \<Rightarrow> int \<Rightarrow> request_counts \<Rightarrow> next_request
    \<Rightarrow> (route_exception + next_response) \<times> request_counts" where
  "POST env now requestCounts request =
     (let ip = clientIp request;
          (rateLimit, requestCounts') = getRateLimitInfo now requestCounts ip
      in if \<not> allowed rateLimit then (Inr rateLimitedResponse, requestCounts')
         else (handleBody env rateLimit (json request), requestCounts'))"

text \<open>A run of the endpoint: the requests arrive one after the other, each at its time.\<close>

fun serve :: "server_env \<Rightarrow> request_counts \<Rightarrow> (int \<times> next_request) list
    \<Rightarrow> (route_exception + next_response) list \<times> request_counts" where
  "serve env requestCounts [] = ([], requestCounts)"
| "serve env requestCounts ((now, request) # rest) =
     (let answer = POST env now requestCounts request;
          later = serve env (snd answer) rest
      in (fst answer # fst later, snd later))"

text \<open>
  The payloads that the handler answers with status 200: a JSON object whose \<open>texts\<close> is
  an array of 1 to 100 strings, whose \<open>targetLang\<close> is a non-empty string, and whose
  \<open>sourceLang\<close>, when it is there, is a string; when a source language is given, neither
  language is the name of a property that the table of languages inherits.
\<close>

definition validPayload :: "request_body \<Rightarrow> bool" where
  "validPayload body =
     (case body of
        JsonObject b \<Rightarrow>
          (case req_texts b of
             None \<Rightarrow> False
           | Some ts \<Rightarrow>
               0 < length ts \<and> length ts \<le> 100 \<and> truthy (req_targetLang b) \<and>
               (case req_sourceLang b of
                  None \<Rightarrow> True
                | Some NotAString \<Rightarrow> False
                | Some (Str s) \<Rightarrow>
                    s = [] \<or>
                    (routeToDeepLTarget (the (req_targetLang b)) \<noteq> NotAString \<and>
                     routeToDeepLTarget s \<noteq> NotAString)))
      | _ \<Rightarrow> False)"

definition helloRequest :: next_request where
  "helloRequest =
     \<lparr>x_forwarded_for = Some ''203.0.113.7'', x_real_ip = None,
      json = JsonObject \<lparr>req_texts = Some [''Hello''], req_targetLang = Some ''fr'',
                         req_sourceLang = None\<rparr>\<rparr>"

section \<open>The client-side translation cache (cache-client.ts)\<close>

definition CACHE_PREFIX :: string where "CACHE_PREFIX = ''deepl_cache_''"

definition CACHE_VERSION :: string where "CACHE_VERSION = ''v1''"

text \<open>
  One round of the loop of \<open>generateSyncCacheKey\<close>:
  \<open>hash = ((hash << 5) - hash) + char; hash = hash & hash\<close>. The shift and the final
  \<open>&\<close> work on 32-bit integers and the arithmetic between them is exact, so the round
  is the same computation on 32-bit words.
\<close>

definition hashStep :: "32 word \<Rightarrow> char \<Rightarrow> 32 word" where
  "hashStep hash c = (push_bit 5 hash - hash) + of_nat (of_char c)"

definition syncHash :: "string \<Rightarrow> 32 word" where
  "syncHash input = fold (\<lambda>c hash. hashStep hash c) input 0"

text \<open>\<open>Number.prototype.toString(36)\<close> on a natural number.\<close>

definition digit36 :: "nat \<Rightarrow> char" where
  "digit36 d = ''0123456789abcdefghijklmnopqrstuvwxyz'' ! d"

function toString36 :: "nat \<Rightarrow> string" where
  "toString36 n = (if n < 36 then [digit36 n] else toString36 (n div 36) @ [digit36 (n mod 36)])"
  by pat_completeness auto
termination
  by (relation "measure id") auto

declare toString36.simps [simp del]

definition generateSyncCacheKey :: "string \<Rightarrow> string \<Rightarrow> string" where
  "generateSyncCacheKey text targetLang =
     (let hash = syncHash (text @ ''||'' @ targetLang)
      in CACHE_VERSION @ ''_'' @ toString36 (nat \<bar>sint hash\<bar>))"

text \<open>
  The two tiers. \<open>hasWindow\<close> says whether the code runs in a browser;
  \<open>getItemThrows\<close> and \<open>setItemThrows\<close> say whether the storage call of this
  operation throws (storage disabled, quota exceeded).
\<close>

record cache_state =
  MEMORY_CACHE :: "string \<rightharpoonup> string"
  localStorage :: "string \<rightharpoonup> string"

record browser =
  hasWindow :: bool
  getItemThrows :: bool
  setItemThrows :: bool

definition getFromCache :: "browser \<Rightarrow> cache_state \<Rightarrow> string \<Rightarrow> string \<Rightarrow> string option \<times> cache_state" where
  "getFromCache env cache text targetLang =
     (let key = generateSyncCacheKey text targetLang;
          memoryResult = MEMORY_CACHE cache key
      in if truthy memoryResult then (memoryResult, cache)
         else if hasWindow env \<and> \<not> getItemThrows env then
           (let stored = localStorage cache (CACHE_PREFIX @ key)
            in if truthy stored
               then (stored, cache\<lparr>MEMORY_CACHE := (MEMORY_CACHE cache)(key \<mapsto> the stored)\<rparr>)
               else (None, cache))
         else (None, cache))"

definition setToCache :: "browser \<Rightarrow> cache_state \<Rightarrow> string \<Rightarrow> string \<Rightarrow> string \<Rightarrow> cache_state" where
  "setToCache env cache text targetLang translation =
     (let key = generateSyncCacheKey text targetLang;
          cache' = cache\<lparr>MEMORY_CACHE := (MEMORY_CACHE cache)(key \<mapsto> translation)\<rparr>
      in if hasWindow env \<and> \<not> setItemThrows env
         then cache'\<lparr>localStorage := (localStorage cache')(CACHE_PREFIX @ key \<mapsto> translation)\<rparr>
         else cache')"

record cache_item =
  item_text :: string
  item_targetLang :: string
  item_translation :: string

definition setBatchToCache :: "browser \<Rightarrow> cache_state \<Rightarrow> cache_item list \<Rightarrow> cache_state" where
  "setBatchToCache env cache items =
     fold (\<lambda>item cache. setToCache env cache (item_text item) (item_targetLang item)
                           (item_translation item)) items cache"

definition emptyCache :: cache_state where
  "emptyCache = \<lparr>MEMORY_CACHE = Map.empty, localStorage = Map.empty\<rparr>"

definition workingBrowser :: browser where
  "workingBrowser = \<lparr>hasWindow = True, getItemThrows = False, setItemThrows = False\<rparr>"

section \<open>The language code registry of the client (client/language-codes.ts)\<close>

text \<open>The registry: language code, English name and DeepL code of each entry (the native
  names, which use characters beyond this model's strings, are left out).\<close>

definition SUPPORTED_LANGUAGES :: "(string \<times> string \<times> string) list" where
  "SUPPORTED_LANGUAGES =
     [(''en'', ''English'', ''EN-US''), (''de'', ''German'', ''DE''), (''es'', ''Spanish'', ''ES''),
      (''fr'', ''French'', ''FR''), (''it'', ''Italian'', ''IT''), (''ja'', ''Japanese'', ''JA''),
      (''ko'', ''Korean'', ''KO''), (''nl'', ''Dutch'', ''NL''), (''pl'', ''Polish'', ''PL''),
      (''pt'', ''Portuguese'', ''PT-BR''), (''ru'', ''Russian'', ''RU''), (''zh'', ''Chinese'', ''ZH-HANS''),
      (''ar'', ''Arabic'', ''AR''), (''bg'', ''Bulgarian'', ''BG''), (''cs'', ''Czech'', ''CS''),
      (''da'', ''Danish'', ''DA''), (''el'', ''Greek'', ''EL''), (''et'', ''Estonian'', ''ET''),
      (''fi'', ''Finnish'', ''FI''), (''hu'', ''Hungarian'', ''HU''), (''id'', ''Indonesian'', ''ID''),
      (''lt'', ''Lithuanian'', ''LT''), (''lv'', ''Latvian'', ''LV''), (''nb'', ''Norwegian'', ''NB''),
      (''ro'', ''Romanian'', ''RO''), (''sk'', ''Slovak'', ''SK''), (''sl'', ''Slovenian'', ''SL''),
      (''sv'', ''Swedish'', ''SV''), (''tr'', ''Turkish'', ''TR''), (''uk'', ''Ukrainian'', ''UK'')]"

definition registryCodes :: "string list" where
  "registryCodes = map fst SUPPORTED_LANGUAGES"

definition getBaseLanguage :: "string \<Rightarrow> string" where
  "getBaseLanguage locale = splitHyphenFirst (toLowerCase locale)"

text \<open>
  \<open>base in SUPPORTED_LANGUAGES\<close>: the operator \<open>in\<close> holds for the keys of the object
  itself and for the names of the properties it inherits from \<open>Object.prototype\<close>.
\<close>

definition isLanguageSupported :: "string \<Rightarrow> bool" where
  "isLanguageSupported locale =
     (let base = getBaseLanguage locale
      in base \<in> set registryCodes \<or> base \<in> set objectPrototypeKeys)"

section \<open>The language preference state (components/translation/TranslationContext.tsx)\<close>

text \<open>
  The state of the provider (\<open>currentLanguage\<close>, \<open>isTranslating\<close>,
  \<open>translationVersion\<close>) together with what its operations leave behind: the value
  stored under \<open>preferred_language\<close>, the language codes posted to the profile
  endpoint, and the lines written to the console.
\<close>

record language_state =
  currentLanguage :: string
  isTranslating :: bool
  translationVersion :: nat
  storedPreference :: "string option"
  profileSyncs :: "string list"
  warnings :: "string list"
  debugLines :: "string list"

datatype js_exception =
    StorageError
  | FetchError
  | SyntaxError
  | TranslationApiError nat
  | ResponseError string

text \<open>What one call meets: whether there is a window, whether \<open>localStorage.setItem\<close>
  throws, and how the request to the profile endpoint ends.\<close>

datatype sync_outcome = SyncOk | SyncNotOk | SyncThrows

record client_env =
  env_hasWindow :: bool
  env_setItemThrows :: bool
  env_sync :: sync_outcome

definition setItem :: "client_env \<Rightarrow> string \<Rightarrow> js_exception + string option" where
  "setItem env v = (if env_setItemThrows env then Inl StorageError else Inr (Some v))"

text \<open>The effect that runs after a render in which \<open>currentLanguage\<close> has changed; it
  catches what \<open>setItem\<close> throws.\<close>

definition persistEffect :: "client_env \<Rightarrow> language_state \<Rightarrow> language_state" where
  "persistEffect env st =
     (if env_hasWindow env then
        (case setItem env (currentLanguage st) of
           Inl e \<Rightarrow> st
         | Inr stored \<Rightarrow> st\<lparr>storedPreference := stored\<rparr>)
      else st)"

definition setCurrentLanguage :: "client_env \<Rightarrow> language_state \<Rightarrow> string \<Rightarrow> language_state" where
  "setCurrentLanguage env st lang =
     (if lang = currentLanguage st then st
      else persistEffect env (st\<lparr>currentLanguage := lang\<rparr>))"

definition postLanguage :: "client_env \<Rightarrow> js_exception + bool" where
  "postLanguage env =
     (case env_sync env of
        SyncOk \<Rightarrow> Inr True
      | SyncNotOk \<Rightarrow> Inr False
      | SyncThrows \<Rightarrow> Inl FetchError)"

text \<open>\<open>syncToProfile\<close> posts the language and ignores every failure.\<close>

definition syncToProfile :: "client_env \<Rightarrow> language_state \<Rightarrow> string \<Rightarrow> language_state" where
  "syncToProfile env st lang =
     (let st' = st\<lparr>profileSyncs := profileSyncs st @ [lang]\<rparr>
      in case postLanguage env of
           Inl e \<Rightarrow> st'
         | Inr ok \<Rightarrow>
             if \<not> ok
             then st'\<lparr>debugLines := debugLines st' @ [''Could not sync language to profile'']\<rparr>
             else st')"

text \<open>
  \<open>setLanguage\<close>, called in a render that sees the current state. Its result is
  \<open>Inr\<close> of the state after the call and the effect that follows; \<open>Inl\<close> would be an
  exception that leaves the function.
\<close>

definition setLanguage :: "client_env \<Rightarrow> language_state \<Rightarrow> string \<Rightarrow> js_exception + language_state" where
  "setLanguage env st lang =
     (let normalized = getBaseLanguage lang
      in if \<not> isLanguageSupported normalized then
           Inr (setCurrentLanguage env
                  (st\<lparr>warnings := warnings st @
                       [''Language '' @ [CHR 0x27] @ lang @ [CHR 0x27] @ '' is not supported, defaulting to English'']\<rparr>)
                  ''en'')
         else if normalized \<noteq> currentLanguage st then
           Inr ((syncToProfile env (setCurrentLanguage env st normalized) normalized)
                  \<lparr>translationVersion := translationVersion st + 1\<rparr>)
         else Inr st)"

definition triggerRetranslation :: "language_state \<Rightarrow> language_state" where
  "triggerRetranslation st = st\<lparr>translationVersion := translationVersion st + 1\<rparr>"

text \<open>
  \<open>getInitialLanguage\<close>: the language given by the server, whether there is a window,
  whether \<open>localStorage.getItem\<close> throws, the stored preference and the language of the
  browser.
\<close>

definition getInitialLanguage :: "string option \<Rightarrow> bool \<Rightarrow> bool \<Rightarrow> string option \<Rightarrow> string option \<Rightarrow> string" where
  "getInitialLanguage serverLanguage window getItemFails stored browserLang =
     (if truthy serverLanguage \<and> isLanguageSupported (the serverLanguage)
      then getBaseLanguage (the serverLanguage)
      else if window then
        (if \<not> getItemFails \<and> truthy stored \<and> isLanguageSupported (the stored)
         then getBaseLanguage (the stored)
         else if truthy browserLang \<and> isLanguageSupported (the browserLang)
         then getBaseLanguage (the browserLang)
         else ''en'')
      else ''en'')"

definition initialState :: "string \<Rightarrow> string option \<Rightarrow> language_state" where
  "initialState lang stored =
     \<lparr>currentLanguage = lang, isTranslating = False, translationVersion = 0,
      storedPreference = stored, profileSyncs = [], warnings = [], debugLines = []\<rparr>"

definition quietEnv :: client_env where
  "quietEnv = \<lparr>env_hasWindow = True, env_setItemThrows = False, env_sync = SyncOk\<rparr>"

definition upperLetters :: string where "upperLetters = ''ABCDEFGHIJKLMNOPQRSTUVWXYZ''"

definition lowerLetters :: string where "lowerLetters = ''abcdefghijklmnopqrstuvwxyz''"

text \<open>What the checks of the code do give: the current language is \<open>en\<close>, a code of
  the registry, or the name of a property that every object inherits.\<close>

definition acceptedLanguage :: "string \<Rightarrow> bool" where
  "acceptedLanguage lang =
     (lang = ''en'' \<or> lang \<in> set registryCodes \<or> lang \<in> set objectPrototypeKeys)"

text \<open>In every state that can be reached, the current language is a base code that
  \<open>isLanguageSupported\<close> accepts.\<close>

definition normalizedSupported :: "string \<Rightarrow> bool" where
  "normalizedSupported lang = (isLanguageSupported lang \<and> getBaseLanguage lang = lang)"

section \<open>The client-side batching translator (client/deepl-client.ts)\<close>

definition BATCH_DELAY :: nat where "BATCH_DELAY = 50"

definition MAX_BATCH_SIZE :: nat where "MAX_BATCH_SIZE = 50"

definition CLIENT_DEEPL_TARGET_MAP :: "(string \<times> string) list" where
  "CLIENT_DEEPL_TARGET_MAP =
     [(''en'', ''EN-US''), (''en-us'', ''EN-US''), (''en-gb'', ''EN-GB''), (''en-au'', ''EN-US''),
      (''pt'', ''PT-BR''), (''pt-br'', ''PT-BR''), (''pt-pt'', ''PT-PT''),
      (''zh'', ''ZH-HANS''), (''zh-cn'', ''ZH-HANS''), (''zh-tw'', ''ZH-HANT''),
      (''zh-hans'', ''ZH-HANS''), (''zh-hant'', ''ZH-HANT''),
      (''de'', ''DE''), (''de-de'', ''DE''), (''de-at'', ''DE''), (''de-ch'', ''DE''),
      (''es'', ''ES''), (''es-es'', ''ES''), (''es-mx'', ''ES''), (''es-ar'', ''ES''),
      (''fr'', ''FR''), (''fr-fr'', ''FR''), (''fr-ca'', ''FR''), (''fr-be'', ''FR''),
      (''ja'', ''JA''), (''ko'', ''KO''), (''it'', ''IT''), (''nl'', ''NL''), (''pl'', ''PL''),
      (''ru'', ''RU''), (''ar'', ''AR''), (''bg'', ''BG''), (''cs'', ''CS''), (''da'', ''DA''),
      (''el'', ''EL''), (''et'', ''ET''), (''fi'', ''FI''), (''hu'', ''HU''), (''id'', ''ID''),
      (''lt'', ''LT''), (''lv'', ''LV''), (''nb'', ''NB''), (''no'', ''NB''), (''ro'', ''RO''),
      (''sk'', ''SK''), (''sl'', ''SL''), (''sv'', ''SV''), (''tr'', ''TR''), (''uk'', ''UK'')]"

text \<open>\<open>toDeepLTarget\<close> of the client tests what it reads for truthiness.\<close>

definition toDeepLTarget :: "string \<Rightarrow> js_value" where
  "toDeepLTarget locale =
     (let normalized = trim (toLowerCase locale) in
      case readProperty CLIENT_DEEPL_TARGET_MAP normalized of
        Some v \<Rightarrow> v
      | None \<Rightarrow>
          (case readProperty CLIENT_DEEPL_TARGET_MAP (splitHyphenFirst normalized) of
             Some v \<Rightarrow> v
           | None \<Rightarrow> Str ''EN-US''))"

text \<open>
  The request to \<open>/api/translate\<close> and what comes back: \<open>fetch\<close> throws, or there is
  a response with its \<open>ok\<close> flag and status, whose body does not parse (\<open>None\<close>) or is
  JSON data with the fields \<open>error\<close>, \<open>fallback\<close> and \<open>translations\<close>.
\<close>

record api_request =
  api_texts :: "string list"
  api_targetLang :: js_value
  api_sourceLang :: "js_value option"

record api_data =
  data_error :: "string option"
  data_fallback :: bool
  data_translations :: "string list option"

datatype api_outcome =
    ApiThrows
  | ApiResponse bool nat "api_data option"

definition fetchTranslations :: "(api_request \<Rightarrow> api_outcome) \<Rightarrow> string list \<Rightarrow> string \<Rightarrow> string option
    \<Rightarrow> js_exception + string list" where
  "fetchTranslations api texts targetLang sourceLang =
     (let body = \<lparr>api_texts = texts,
                  api_targetLang = toDeepLTarget targetLang,
                  api_sourceLang = (if truthy sourceLang then Some (toDeepLTarget (the sourceLang))
                                    else None)\<rparr>
      in case api body of
           ApiThrows \<Rightarrow> Inl FetchError
         | ApiResponse ok httpStatus parsed \<Rightarrow>
             if \<not> ok then Inl (TranslationApiError httpStatus)
             else
               (case parsed of
                  None \<Rightarrow> Inl SyntaxError
                | Some data \<Rightarrow>
                    if truthy (data_error data) \<and> \<not> data_fallback data
                    then Inl (ResponseError (the (data_error data)))
                    else Inr (case data_translations data of
                                Some ts \<Rightarrow> ts
                              | None \<Rightarrow> texts)))"

text \<open>
  A queued request holds the \<open>resolve\<close> and \<open>reject\<close> functions of one promise;
  \<open>q_promise\<close> names that promise. Every call of a \<open>resolve\<close> or \<open>reject\<close> is
  recorded, in order.
\<close>

record QueuedRequest =
  q_text :: string
  q_targetLang :: string
  q_promise :: nat

datatype settle_call = Resolve nat string | Reject nat js_exception


text \<open>A JavaScript \<open>Map\<close> keeps its keys in the order of their first insertion.\<close>

fun jsMapSet :: "('k \<times> 'v) list \<Rightarrow> 'k \<Rightarrow> 'v \<Rightarrow> ('k \<times> 'v) list" where
  "jsMapSet [] k v = [(k, v)]"
| "jsMapSet ((k', v') # m) k v = (if k' = k then (k, v) # m else (k', v') # jsMapSet m k v)"

definition groupStep :: "(string \<times> QueuedRequest list) list \<Rightarrow> QueuedRequest
    \<Rightarrow> (string \<times> QueuedRequest list) list" where
  "groupStep byLanguage req =
     (let langRequests = (case map_of byLanguage (q_targetLang req) of Some g \<Rightarrow> g | None \<Rightarrow> [])
      in jsMapSet byLanguage (q_targetLang req) (langRequests @ [req]))"

definition groupByLanguage :: "QueuedRequest list \<Rightarrow> (string \<times> QueuedRequest list) list" where
  "groupByLanguage requests = fold (\<lambda>req byLanguage. groupStep byLanguage req) requests []"

text \<open>The slices \<open>langRequests.slice(i, i + MAX_BATCH_SIZE)\<close> for \<open>i = 0, 50, 100, ...\<close>\<close>

function chunksOf :: "'a list \<Rightarrow> 'a list list" where
  "chunksOf xs = (if xs = [] then [] else take MAX_BATCH_SIZE xs # chunksOf (drop MAX_BATCH_SIZE xs))"
  by pat_completeness auto
termination
  by (relation "measure length") (auto simp: MAX_BATCH_SIZE_def)

declare chunksOf.simps [simp del]

text \<open>\<open>xs[i]\<close>: \<open>undefined\<close> out of range.\<close>

definition jsNth :: "'a list \<Rightarrow> nat \<Rightarrow> 'a option" where
  "jsNth xs i = (if i < length xs then Some (xs ! i) else None)"

text \<open>
  The state that a flush threads through its chunks: the cache, the number of calls made
  to the endpoint (the \<open>n\<close>-th call is answered by \<open>api n\<close>), and the record of the
  promises settled.
\<close>

record flush_state =
  fs_cache :: cache_state
  fs_calls :: nat
  fs_log :: "settle_call list"

definition resolveChunk :: "string list \<Rightarrow> QueuedRequest list \<Rightarrow> settle_call list" where
  "resolveChunk translations chunk =
     map (\<lambda>(index, req).
            Resolve (q_promise req)
              (if truthy (jsNth translations index) then the (jsNth translations index)
               else q_text req))
       (enumerate 0 chunk)"

definition chunkCacheItems :: "string \<Rightarrow> string list \<Rightarrow> QueuedRequest list \<Rightarrow> cache_item list" where
  "chunkCacheItems targetLang translations chunk =
     map (\<lambda>(index, req).
            \<lparr>item_text = q_text req, item_targetLang = targetLang,
             item_translation = (if truthy (jsNth translations index) then the (jsNth translations index)
                                 else q_text req)\<rparr>)
       (enumerate 0 chunk)"

definition processChunk :: "browser \<Rightarrow> (nat \<Rightarrow> api_request \<Rightarrow> api_outcome) \<Rightarrow> string
    \<Rightarrow> QueuedRequest list \<Rightarrow> flush_state \<Rightarrow> flush_state" where
  "processChunk env api targetLang chunk fs =
     (case fetchTranslations (api (fs_calls fs)) (map q_text chunk) targetLang None of
        Inr translations \<Rightarrow>
          \<lparr>fs_cache = setBatchToCache env (fs_cache fs) (chunkCacheItems targetLang translations chunk),
           fs_calls = fs_calls fs + 1,
           fs_log = fs_log fs @ resolveChunk translations chunk\<rparr>
      | Inl thrown \<Rightarrow>
          \<lparr>fs_cache = fs_cache fs,
           fs_calls = fs_calls fs + 1,
           fs_log = fs_log fs @ map (\<lambda>req. Resolve (q_promise req) (q_text req)) chunk\<rparr>)"

definition processGroup :: "browser \<Rightarrow> (nat \<Rightarrow> api_request \<Rightarrow> api_outcome)
    \<Rightarrow> string \<times> QueuedRequest list \<Rightarrow> flush_state \<Rightarrow> flush_state" where
  "processGroup env api entry fs =
     fold (processChunk env api (fst entry)) (chunksOf (snd entry)) fs"

text \<open>
  The state of the module: the queue, whether a flush timer is pending, the cache, the
  promises created so far and the record of the calls that settled them.
\<close>

record translator_state =
  requestQueue :: "QueuedRequest list"
  flushTimeout :: bool
  clientCache :: cache_state
  nextPromise :: nat
  settled :: "settle_call list"
  apiCalls :: nat

text \<open>
  \<open>flushQueue\<close> takes the whole queue and leaves an empty one before its first
  \<open>await\<close>; what arrives later goes to the new queue. The rest of the flush works on
  the requests it took, one chunk after the other, and is modelled as one step.
\<close>

definition flushQueue :: "browser \<Rightarrow> (nat \<Rightarrow> api_request \<Rightarrow> api_outcome) \<Rightarrow> translator_state
    \<Rightarrow> translator_state" where
  "flushQueue env api st =
     (if length (requestQueue st) = 0 then st
      else
        let requests = requestQueue st;
            byLanguage = groupByLanguage requests;
            fs = fold (processGroup env api) byLanguage
                   \<lparr>fs_cache = clientCache st, fs_calls = apiCalls st, fs_log = []\<rparr>
        in st\<lparr>requestQueue := [], clientCache := fs_cache fs, apiCalls := fs_calls fs,
               settled := settled st @ fs_log fs\<rparr>)"










section \<open>The DOM translator (components/translation/GlobalTranslator.tsx)\<close>

subsection \<open>The document\<close>

text \<open>
  A node is a text node or an element with its tag name, attributes, class list and
  child nodes; the number is the identity of the node. The state of the DOM is the tree
  of the document, the trees that have been removed from it (script still holds their
  nodes, here through the static list of \<open>querySelectorAll\<close>), the next fresh
  identity, the set \<open>pendingOurMutations\<close> of the translator and its map
  \<open>translatedNodes\<close> from nodes to the language they were translated into.
\<close>

datatype dom_node =
    TextNode nat string
  | Element nat string "(string \<times> string) list" "string list" "dom_node list"

record dom_state =
  document :: dom_node
  detached :: "dom_node list"
  nextNode :: nat
  pendingOurMutations :: "nat list"
  translatedNodes :: "(nat \<times> string) list"

fun nodeId :: "dom_node \<Rightarrow> nat" where
  "nodeId (TextNode i s) = i"
| "nodeId (Element i tag attrs classes children) = i"

fun textContent :: "dom_node \<Rightarrow> string" where
  "textContent (TextNode i s) = s"
| "textContent (Element i tag attrs classes children) = concat (map textContent children)"

fun getAttribute :: "dom_node \<Rightarrow> string \<Rightarrow> string option" where
  "getAttribute (TextNode i s) name = None"
| "getAttribute (Element i tag attrs classes children) name = map_of attrs name"

fun firstSome :: "'a option list \<Rightarrow> 'a option" where
  "firstSome [] = None"
| "firstSome (None # xs) = firstSome xs"
| "firstSome (Some x # xs) = Some x"

fun findNode :: "nat \<Rightarrow> dom_node \<Rightarrow> dom_node option" where
  "findNode i (TextNode j s) = (if i = j then Some (TextNode j s) else None)"
| "findNode i (Element j tag attrs classes children) =
     (if i = j then Some (Element j tag attrs classes children)
      else firstSome (map (findNode i) children))"

fun updateNode :: "nat \<Rightarrow> (dom_node \<Rightarrow> dom_node) \<Rightarrow> dom_node \<Rightarrow> dom_node" where
  "updateNode i f (TextNode j s) = (if i = j then f (TextNode j s) else TextNode j s)"
| "updateNode i f (Element j tag attrs classes children) =
     (if i = j then f (Element j tag attrs classes children)
      else Element j tag attrs classes (map (updateNode i f) children))"

definition findInState :: "dom_state \<Rightarrow> nat \<Rightarrow> dom_node option" where
  "findInState st i = firstSome (map (findNode i) (document st # detached st))"

definition updateInState :: "dom_state \<Rightarrow> nat \<Rightarrow> (dom_node \<Rightarrow> dom_node) \<Rightarrow> dom_state" where
  "updateInState st i f =
     st\<lparr>document := updateNode i f (document st),
        detached := map (updateNode i f) (detached st)\<rparr>"

text \<open>\<open>document.querySelectorAll('[name]')\<close>: the elements of the document that have
  the attribute, in document order, as a list that later changes do not affect.\<close>

fun querySelectorAll :: "string \<Rightarrow> dom_node \<Rightarrow> nat list" where
  "querySelectorAll name (TextNode i s) = []"
| "querySelectorAll name (Element i tag attrs classes children) =
     (if map_of attrs name \<noteq> None then [i] else [])
     @ concat (map (querySelectorAll name) children)"

fun childrenOf :: "dom_node \<Rightarrow> dom_node list" where
  "childrenOf (TextNode i s) = []"
| "childrenOf (Element i tag attrs classes children) = children"

fun withChildren :: "dom_node list \<Rightarrow> dom_node \<Rightarrow> dom_node" where
  "withChildren new (TextNode i s) = TextNode i s"
| "withChildren new (Element i tag attrs classes children) = Element i tag attrs classes new"

text \<open>
  Assigning \<open>element.textContent\<close> removes every child of the element and, unless the
  string is empty, gives it one new text node. The removed children are no longer in
  the tree of the element.
\<close>

definition setTextContent :: "dom_state \<Rightarrow> nat \<Rightarrow> string \<Rightarrow> dom_state" where
  "setTextContent st i s =
     (case findInState st i of
        None \<Rightarrow> st
      | Some node \<Rightarrow>
          let st' = updateInState st i
                      (withChildren (if s = [] then [] else [TextNode (nextNode st) s]))
          in st'\<lparr>detached := detached st' @ childrenOf node, nextNode := nextNode st + 1\<rparr>)"

fun removeAttr :: "string \<Rightarrow> dom_node \<Rightarrow> dom_node" where
  "removeAttr name (TextNode i s) = TextNode i s"
| "removeAttr name (Element i tag attrs classes children) =
     Element i tag (filter (\<lambda>(n, v). n \<noteq> name) attrs) classes children"

fun removeClass :: "string \<Rightarrow> dom_node \<Rightarrow> dom_node" where
  "removeClass name (TextNode i s) = TextNode i s"
| "removeClass name (Element i tag attrs classes children) =
     Element i tag attrs (filter (\<lambda>c. c \<noteq> name) classes) children"

fun setAttr :: "string \<Rightarrow> string \<Rightarrow> dom_node \<Rightarrow> dom_node" where
  "setAttr name v (TextNode i s) = TextNode i s"
| "setAttr name v (Element i tag attrs classes children) =
     Element i tag (jsMapSet attrs name v) classes children"

text \<open>\<open>WeakSet.add\<close>: a member that is there is not added again.\<close>

definition weakSetAdd :: "nat \<Rightarrow> nat list \<Rightarrow> nat list" where
  "weakSetAdd i xs = (if i \<in> set xs then xs else xs @ [i])"

subsection \<open>Reverting\<close>

definition TRANSLATABLE_ATTRS :: "string list" where
  "TRANSLATABLE_ATTRS =
     [''placeholder'', ''title'', ''aria-label'', ''aria-placeholder'', ''aria-description'', ''alt'']"

text \<open>The body of the first \<open>forEach\<close> of \<open>revertTranslations\<close>, for one element of the
  list.\<close>

definition revertText :: "nat \<Rightarrow> dom_state \<Rightarrow> dom_state" where
  "revertText e st =
     (case findInState st e of
        None \<Rightarrow> st
      | Some element \<Rightarrow>
          let original = getAttribute element ''data-original-text'';
              st1 = (if truthy original \<and> textContent element \<noteq> the original
                     then setTextContent
                            (st\<lparr>pendingOurMutations :=
                                  weakSetAdd (case childrenOf element of [] \<Rightarrow> e | c # cs \<Rightarrow> nodeId c)
                                    (pendingOurMutations st)\<rparr>)
                            e (the original)
                     else st)
          in updateInState (updateInState st1 e (removeAttr ''data-original-text''))
               e (removeClass ''translated''))"

text \<open>The body of the inner \<open>forEach\<close> of the second part, for one attribute and one
  element.\<close>

definition revertAttribute :: "string \<Rightarrow> nat \<Rightarrow> dom_state \<Rightarrow> dom_state" where
  "revertAttribute attr e st =
     (case findInState st e of
        None \<Rightarrow> st
      | Some element \<Rightarrow>
          let original = getAttribute element (''data-original-'' @ attr)
          in if truthy original
             then updateInState (updateInState st e (setAttr attr (the original)))
                    e (removeAttr (''data-original-'' @ attr))
             else st)"

definition revertAttributes :: "string \<Rightarrow> dom_state \<Rightarrow> dom_state" where
  "revertAttributes attr st =
     fold (revertAttribute attr) (querySelectorAll (''data-original-'' @ attr) (document st)) st"

definition revertTranslations :: "dom_state \<Rightarrow> dom_state" where
  "revertTranslations st =
     (let st1 = fold revertText (querySelectorAll ''data-original-text'' (document st)) st
      in fold revertAttributes TRANSLATABLE_ATTRS st1)"

subsection \<open>The effect on a change of language\<close>

record translator_refs =
  previousLanguage :: string
  isInitialMount :: bool

datatype language_action =
    RevertTranslations
  | ScanAfterPaintAndAgain
  | ResetThenScan
  | ScanFullPage
  | NoAction

definition languageEffect :: "translator_refs \<Rightarrow> string \<Rightarrow> language_action \<times> translator_refs" where
  "languageEffect refs current =
     (let action =
            (if current = ''en'' then (if \<not> isInitialMount refs then RevertTranslations else NoAction)
             else if isInitialMount refs then ScanAfterPaintAndAgain
             else if previousLanguage refs \<noteq> current then
               (if previousLanguage refs \<noteq> ''en'' then ResetThenScan else ScanFullPage)
             else NoAction)
      in (action, \<lparr>previousLanguage = current, isInitialMount = False\<rparr>))"

subsection \<open>Scanning and translating\<close>

definition SKIP_ELEMENTS :: "string list" where
  "SKIP_ELEMENTS =
     [''SCRIPT'', ''STYLE'', ''CODE'', ''PRE'', ''KBD'', ''SAMP'', ''VAR'',
      ''TEXTAREA'', ''INPUT'', ''NOSCRIPT'', ''IFRAME'', ''SVG'', ''MATH'']"

definition MIN_TEXT_LENGTH :: nat where "MIN_TEXT_LENGTH = 2"

text \<open>The character classes of the regular expressions, on the code units below 256:
  \<open>\d\<close>, \<open>\w\<close>, and the Unicode categories punctuation (\<open>\p{P}\<close>) and symbol
  (\<open>\p{S}\<close>); \<open>\s\<close> is \<open>isWhiteSpace\<close>.\<close>

definition isDigit :: "char \<Rightarrow> bool" where
  "isDigit c = (c \<in> set ''0123456789'')"

definition isWordChar :: "char \<Rightarrow> bool" where
  "isWordChar c =
     (c \<in> set ''ABCDEFGHIJKLMNOPQRSTUVWXYZabcdefghijklmnopqrstuvwxyz0123456789_'')"

definition isPunctuation :: "char \<Rightarrow> bool" where
  "isPunctuation c =
     (c \<in> set [CHR 0x21, CHR 0x22, CHR 0x23, CHR 0x25, CHR 0x26, CHR 0x27, CHR 0x28, CHR 0x29,
                CHR 0x2A, CHR 0x2C, CHR 0x2D, CHR 0x2E, CHR 0x2F, CHR 0x3A, CHR 0x3B, CHR 0x3F,
                CHR 0x40, CHR 0x5B, CHR 0x5C, CHR 0x5D, CHR 0x5F, CHR 0x7B, CHR 0x7D,
                CHR 0xA1, CHR 0xA7, CHR 0xAB, CHR 0xB6, CHR 0xB7, CHR 0xBB, CHR 0xBF])"

definition isSymbol :: "char \<Rightarrow> bool" where
  "isSymbol c =
     (c \<in> set [CHR 0x24, CHR 0x2B, CHR 0x3C, CHR 0x3D, CHR 0x3E, CHR 0x5E, CHR 0x60, CHR 0x7C,
                CHR 0x7E, CHR 0xA2, CHR 0xA3, CHR 0xA4, CHR 0xA5, CHR 0xA6, CHR 0xA8, CHR 0xA9,
                CHR 0xAC, CHR 0xAE, CHR 0xAF, CHR 0xB0, CHR 0xB1, CHR 0xB4, CHR 0xB8, CHR 0xD7,
                CHR 0xF7])"

definition startsWith :: "string \<Rightarrow> string \<Rightarrow> bool" where
  "startsWith prefix s = (take (length prefix) s = prefix)"

text \<open>\<open>/^[\w.-]+@[\w.-]+\.\w+$/\<close>: the characters before the \<open>@\<close> and the domain after
  it are in \<open>[\w.-]\<close>, and the domain ends with a dot and one or more \<open>\w\<close> after a
  part that is not empty.\<close>

definition looksLikeEmail :: "string \<Rightarrow> bool" where
  "looksLikeEmail s =
     (let localPart = takeWhile (\<lambda>c. c \<noteq> CHR ''@'') s;
          rest = drop (length localPart) s;
          domain = tl rest;
          suffix = rev (takeWhile (\<lambda>c. c \<noteq> CHR ''.'') (rev domain));
          domainHead = take (length domain - length suffix - 1) domain
      in localPart \<noteq> [] \<and>
         list_all (\<lambda>c. isWordChar c \<or> c = CHR ''.'' \<or> c = CHR ''-'') localPart \<and>
         rest \<noteq> [] \<and>
         list_all (\<lambda>c. isWordChar c \<or> c = CHR ''.'' \<or> c = CHR ''-'') domain \<and>
         CHR ''.'' \<in> set domain \<and>
         suffix \<noteq> [] \<and> list_all isWordChar suffix \<and>
         domainHead \<noteq> [])"

definition shouldTranslateText :: "string \<Rightarrow> bool" where
  "shouldTranslateText t =
     (let trimmed = trim t in
      if length trimmed < MIN_TEXT_LENGTH then False
      else if list_all (\<lambda>c. isDigit c \<or> isWhiteSpace c \<or> isPunctuation c \<or> isSymbol c) trimmed
      then False
      else if startsWith ''http://'' trimmed \<or> startsWith ''https://'' trimmed
              \<or> startsWith ''www.'' trimmed
      then False
      else if looksLikeEmail trimmed then False
      else True)"

fun tagOf :: "dom_node \<Rightarrow> string" where
  "tagOf (TextNode i s) = []"
| "tagOf (Element i tag attrs classes children) = tag"

fun classesOf :: "dom_node \<Rightarrow> string list" where
  "classesOf (TextNode i s) = []"
| "classesOf (Element i tag attrs classes children) = classes"

text \<open>
  \<open>shouldSkipElement\<close>: the tests on the element itself, and the test that it makes on
  each of its ancestors.
\<close>

definition skipsItself :: "dom_node \<Rightarrow> bool" where
  "skipsItself element =
     (tagOf element \<in> set SKIP_ELEMENTS \<or>
      getAttribute element ''data-no-translate'' \<noteq> None \<or>
      ''notranslate'' \<in> set (classesOf element) \<or>
      getAttribute element ''contenteditable'' = Some ''true'')"

definition skipsDescendants :: "dom_node \<Rightarrow> bool" where
  "skipsDescendants parent =
     (getAttribute parent ''data-no-translate'' \<noteq> None \<or>
      ''notranslate'' \<in> set (classesOf parent) \<or>
      tagOf parent \<in> set SKIP_ELEMENTS)"

datatype target_type = TextTarget | AttributeTarget

record TranslationTarget =
  target_type :: target_type
  target_node :: nat
  target_element :: "nat option"
  target_attribute :: "string option"
  originalText :: string

text \<open>The targets that one attribute list gives for the element \<open>e\<close>.\<close>

definition attributeTargets :: "nat \<Rightarrow> dom_node \<Rightarrow> TranslationTarget list" where
  "attributeTargets e element =
     concat (map (\<lambda>attr.
        let v = getAttribute element attr in
        if truthy v \<and> shouldTranslateText (the v)
        then [\<lparr>target_type = AttributeTarget, target_node = e, target_element = Some e,
                target_attribute = Some attr,
                originalText = (if truthy (getAttribute element (''data-original-'' @ attr))
                                then the (getAttribute element (''data-original-'' @ attr))
                                else the v)\<rparr>]
        else []) TRANSLATABLE_ATTRS)"

definition optionTargets :: "nat \<Rightarrow> dom_node \<Rightarrow> TranslationTarget list" where
  "optionTargets e element =
     (if tagOf element = ''OPTION'' \<and> shouldTranslateText (textContent element)
      then [\<lparr>target_type = TextTarget,
              target_node = (case childrenOf element of [] \<Rightarrow> e | c # cs \<Rightarrow> nodeId c),
              target_element = Some e, target_attribute = None,
              originalText = (if truthy (getAttribute element ''data-original-text'')
                              then the (getAttribute element ''data-original-text'')
                              else textContent element)\<rparr>]
      else [])"

text \<open>
  The walk of the tree walker below the root: \<open>walk\<close> visits a node whose parent is
  \<open>parent\<close>; \<open>rejected\<close> says that an ancestor of the node makes
  \<open>shouldSkipElement\<close> hold for every element below it. An element that is skipped is
  rejected with its subtree; a text node that is reached is always accepted.
\<close>

fun walk :: "string \<Rightarrow> (nat \<times> string) list \<Rightarrow> bool \<Rightarrow> dom_node \<Rightarrow> dom_node \<Rightarrow> TranslationTarget list" where
  "walk language translated rejected parent (TextNode i s) =
     (if shouldTranslateText s then
        (if map_of translated i = Some language then []
         else [\<lparr>target_type = TextTarget, target_node = i, target_element = None,
                 target_attribute = None,
                 originalText = (if truthy (getAttribute parent ''data-original-text'')
                                 then the (getAttribute parent ''data-original-text'')
                                 else s)\<rparr>])
      else [])"
| "walk language translated rejected parent (Element i tag attrs classes children) =
     (if skipsItself (Element i tag attrs classes children) \<or> rejected then []
      else attributeTargets i (Element i tag attrs classes children)
           @ optionTargets i (Element i tag attrs classes children)
           @ concat (map (walk language translated
                            (skipsDescendants (Element i tag attrs classes children))
                            (Element i tag attrs classes children))
                       children))"

text \<open>\<open>extractTargets(document.body)\<close>; the body has no ancestor that is skipped.\<close>

definition extractTargets :: "string \<Rightarrow> dom_state \<Rightarrow> TranslationTarget list" where
  "extractTargets language st =
     concat (map (walk language (translatedNodes st) (skipsDescendants (document st))
                    (document st))
               (childrenOf (document st)))"

text \<open>The element whose children contain the node \<open>i\<close>.\<close>

fun parentOf :: "nat \<Rightarrow> dom_node \<Rightarrow> nat option" where
  "parentOf i (TextNode j s) = None"
| "parentOf i (Element j tag attrs classes children) =
     (if i \<in> set (map nodeId children) then Some j
      else firstSome (map (parentOf i) children))"

definition parentInState :: "dom_state \<Rightarrow> nat \<Rightarrow> nat option" where
  "parentInState st i = firstSome (map (parentOf i) (document st # detached st))"

fun addClass :: "string \<Rightarrow> dom_node \<Rightarrow> dom_node" where
  "addClass name (TextNode i s) = TextNode i s"
| "addClass name (Element i tag attrs classes children) =
     Element i tag attrs (if name \<in> set classes then classes else classes @ [name]) children"

fun setData :: "string \<Rightarrow> dom_node \<Rightarrow> dom_node" where
  "setData s (TextNode i old) = TextNode i s"
| "setData s (Element i tag attrs classes children) = Element i tag attrs classes children"

text \<open>Assigning \<open>node.textContent\<close>: the data of a text node, the children of an
  element.\<close>

definition setNodeText :: "dom_state \<Rightarrow> nat \<Rightarrow> string \<Rightarrow> dom_state" where
  "setNodeText st i s =
     (case findInState st i of
        Some (TextNode j old) \<Rightarrow> updateInState st i (setData s)
      | Some (Element j tag attrs classes children) \<Rightarrow> setTextContent st i s
      | None \<Rightarrow> st)"

definition hasAttributeInState :: "dom_state \<Rightarrow> nat \<Rightarrow> string \<Rightarrow> bool" where
  "hasAttributeInState st e name =
     (case findInState st e of
        None \<Rightarrow> False
      | Some element \<Rightarrow> getAttribute element name \<noteq> None)"

text \<open>The body of the \<open>forEach\<close> of \<open>applyTranslations\<close> that writes one target.\<close>

definition applyTarget :: "string \<Rightarrow> (string \<times> string option) list \<Rightarrow> TranslationTarget
    \<Rightarrow> dom_state \<Rightarrow> dom_state" where
  "applyTarget language translationMap target st =
     (let translation = (case map_of translationMap (originalText target) of
                           None \<Rightarrow> None | Some t \<Rightarrow> t)
      in if \<not> truthy translation \<or> the translation = originalText target then st
         else if target_type target = TextTarget then
           (let textNode = target_node target;
                parent = parentInState st textNode;
                st1 = (case parent of
                         None \<Rightarrow> st
                       | Some p \<Rightarrow>
                           if \<not> hasAttributeInState st p ''data-original-text''
                           then updateInState st p (setAttr ''data-original-text'' (originalText target))
                           else st);
                st2 = setNodeText
                        (st1\<lparr>pendingOurMutations := weakSetAdd textNode (pendingOurMutations st1)\<rparr>)
                        textNode (the translation);
                st3 = st2\<lparr>translatedNodes := jsMapSet (translatedNodes st2) textNode language\<rparr>
            in case parent of
                 None \<Rightarrow> st3
               | Some p \<Rightarrow> updateInState st3 p (addClass ''translated''))
         else
           (case (target_element target, target_attribute target) of
              (Some e, Some attr) \<Rightarrow>
                if attr = [] then st
                else
                  let st1 = (if \<not> hasAttributeInState st e (''data-original-'' @ attr)
                             then updateInState st e
                                    (setAttr (''data-original-'' @ attr) (originalText target))
                             else st)
                  in updateInState st1 e (setAttr attr (the translation))
            | _ \<Rightarrow> st))"

text \<open>\<open>[...new Set(xs)]\<close>: the elements of \<open>xs\<close> in the order of their first
  occurrence.\<close>

definition uniqueInOrder :: "'a list \<Rightarrow> 'a list" where
  "uniqueInOrder xs = rev (remdups (rev xs))"

text \<open>
  \<open>applyTranslations\<close>, given what the awaited \<open>translateBatch\<close> of the client gave for
  the unique texts: a list of strings, or an exception, which is caught.
\<close>

definition applyTranslations :: "string \<Rightarrow> (string list \<Rightarrow> js_exception + string list)
    \<Rightarrow> TranslationTarget list \<Rightarrow> dom_state \<Rightarrow> dom_state" where
  "applyTranslations language translateBatchOutcome targets st =
     (if length targets = 0 \<or> language = ''en'' then st
      else
        let uniqueTexts = uniqueInOrder (map originalText targets)
        in case translateBatchOutcome uniqueTexts of
             Inl thrown \<Rightarrow> st
           | Inr translations \<Rightarrow>
               let translationMap =
                     fold (\<lambda>(i, t) m. jsMapSet m t (jsNth translations i)) (enumerate 0 uniqueTexts) []
               in fold (applyTarget language translationMap) targets st)"

text \<open>The page \<open><body><p>Click <span title="Help">here</span> now</p></body>\<close> as the
  server renders it, and a translation into French of the texts on it.\<close>

definition cleanParagraph :: dom_state where
  "cleanParagraph =
     \<lparr>document =
        Element 0 ''BODY'' [] []
          [Element 1 ''P'' [] []
             [TextNode 2 ''Click '',
              Element 3 ''SPAN'' [(''title'', ''Help'')] [] [TextNode 4 ''here''],
              TextNode 5 '' now'']],
      detached = [], nextNode = 6, pendingOurMutations = [], translatedNodes = []\<rparr>"

definition toFrench :: "string list \<Rightarrow> js_exception + string list" where
  "toFrench ts =
     Inr (map (\<lambda>t. case map_of [(''Click '', ''Cliquez ''), (''Help'', ''Aide''), (''here'', ''ici''),
                                 ('' now'', '' maintenant'')] t of
                      Some f \<Rightarrow> f
                    | None \<Rightarrow> t) ts)"

text \<open>The page after its translation into French: the paragraph carries the original of
  its first text node, the span the originals of its text and of its title.\<close>

definition mixedParagraph :: dom_state where
  "mixedParagraph =
     \<lparr>document =
        Element 0 ''BODY'' [] []
          [Element 1 ''P'' [(''data-original-text'', ''Click '')] [''translated'']
             [TextNode 2 ''Cliquez '',
              Element 3 ''SPAN''
                [(''title'', ''Aide''), (''data-original-title'', ''Help''),
                 (''data-original-text'', ''here'')]
                [''translated'']
                [TextNode 4 ''ici''],
              TextNode 5 '' maintenant'']],
      detached = [], nextNode = 6, pendingOurMutations = [2, 4, 5],
      translatedNodes = [(2, ''fr''), (4, ''fr''), (5, ''fr'')]\<rparr>"

section \<open>Properties\<close>

subsection \<open>Facts about the batch translation of the provider\<close>

lemma nonEmptyEntries_gen:
  "filter (\<lambda>(index, text). trim text \<noteq> []) (enumerate n texts)
   = map (\<lambda>i. (i, texts ! (i - n))) (filter (\<lambda>i. trim (texts ! (i - n)) \<noteq> []) [n..<n + length texts])"
proof (induction texts arbitrary: n)
  case Nil
  then show ?case by simp
next
  case (Cons t ts)
  have up: "[n..<n + length (t # ts)] = n # [Suc n..<Suc n + length ts]"
  proof -
    have "n < n + length (t # ts)" by simp
    then have "[n..<n + length (t # ts)] = n # [Suc n..<n + length (t # ts)]"
      by (rule upt_conv_Cons)
    then show ?thesis by simp
  qed
  have nth: "(t # ts) ! (x - n) = ts ! (x - Suc n)" if "Suc n \<le> x" for x
  proof -
    from that have "x - n = Suc (x - Suc n)" by arith
    then show ?thesis by simp
  qed
  have a: "filter (\<lambda>i. trim ((t # ts) ! (i - n)) \<noteq> []) [Suc n..<Suc n + length ts]
         = filter (\<lambda>i. trim (ts ! (i - Suc n)) \<noteq> []) [Suc n..<Suc n + length ts]"
    by (rule filter_cong) (auto simp: nth simp del: upt_Suc)
  have b: "map (\<lambda>i. (i, (t # ts) ! (i - n))) (filter (\<lambda>i. trim (ts ! (i - Suc n)) \<noteq> []) [Suc n..<Suc n + length ts])
         = map (\<lambda>i. (i, ts ! (i - Suc n))) (filter (\<lambda>i. trim (ts ! (i - Suc n)) \<noteq> []) [Suc n..<Suc n + length ts])"
    by (rule map_cong) (auto simp: nth simp del: upt_Suc)
  show ?case
    unfolding up using Cons.IH [of "Suc n"] a b by simp
qed

lemma nonEmptyIndices_eq:
  "map fst (nonEmptyEntries texts) = filter (\<lambda>i. trim (texts ! i) \<noteq> []) [0..<length texts]"
  unfolding nonEmptyEntries_def nonEmptyEntries_gen [of 0 texts]
  by (simp add: comp_def)

lemma nonEmptyTexts_eq:
  "map snd (nonEmptyEntries texts) = filter (\<lambda>t. trim t \<noteq> []) texts"
proof -
  have "map snd (nonEmptyEntries texts)
        = map (\<lambda>i. texts ! i) (filter (\<lambda>i. trim (texts ! i) \<noteq> []) [0..<length texts])"
    unfolding nonEmptyEntries_def nonEmptyEntries_gen [of 0 texts] by (simp add: comp_def)
  also have "\<dots> = filter (\<lambda>t. trim t \<noteq> []) (map (\<lambda>i. texts ! i) [0..<length texts])"
    by (simp add: filter_map comp_def)
  also have "map (\<lambda>i. texts ! i) [0..<length texts] = texts"
    by (rule map_nth)
  finally show ?thesis .
qed

lemma writeTranslations_snoc:
  "writeTranslations is (ts @ [t]) r = (writeTranslations is ts r)[is ! length ts := t]"
  by (simp add: writeTranslations_def enumerate_append_eq)

lemma length_writeTranslations: "length (writeTranslations is ts r) = length r"
  by (induction ts rule: rev_induct) (simp_all add: writeTranslations_snoc, simp add: writeTranslations_def)

lemma writeTranslations_other:
  "length ts \<le> length is \<Longrightarrow> i \<notin> set is \<Longrightarrow> writeTranslations is ts r ! i = r ! i"
proof (induction ts rule: rev_induct)
  case Nil
  then show ?case by (simp add: writeTranslations_def)
next
  case (snoc t ts)
  from snoc.prems have "is ! length ts \<in> set is" by simp
  with snoc.prems have ne: "is ! length ts \<noteq> i" by metis
  from snoc have "writeTranslations is ts r ! i = r ! i" by simp
  with ne show ?case by (simp add: writeTranslations_snoc)
qed

lemma writeTranslations_at:
  "length ts \<le> length is \<Longrightarrow> distinct is \<Longrightarrow> \<forall>i\<in>set is. i < length r \<Longrightarrow> k < length ts
   \<Longrightarrow> writeTranslations is ts r ! (is ! k) = ts ! k"
proof (induction ts rule: rev_induct)
  case Nil
  then show ?case by simp
next
  case (snoc t ts)
  show ?case
  proof (cases "k = length ts")
    case True
    with snoc.prems show ?thesis
      by (simp add: writeTranslations_snoc length_writeTranslations)
  next
    case False
    with snoc.prems have k: "k < length ts" by simp
    with snoc.prems have "is ! k \<noteq> is ! length ts"
      by (simp add: nth_eq_iff_index_eq)
    with snoc k show ?thesis
      by (simp add: writeTranslations_snoc nth_append)
  qed
qed

lemma filter_upt_rank:
  "i < n \<Longrightarrow> P i \<Longrightarrow> filter P [0..<n] ! length (filter P [0..<i]) = i"
proof -
  assume a: "i < n" "P i"
  then have "[0..<n] = [0..<i] @ i # [Suc i..<n]"
    by (metis le_add1 less_imp_add_positive upt_add_eq_append upt_conv_Cons zero_le add_0)
  then have "filter P [0..<n] = filter P [0..<i] @ i # filter P [Suc i..<n]"
    using a by simp
  then show ?thesis by (simp add: nth_append)
qed

lemma rank_take:
  "i \<le> length texts \<Longrightarrow>
   length (filter (\<lambda>j. trim (texts ! j) \<noteq> []) [0..<i]) = length (filter (\<lambda>t. trim t \<noteq> []) (take i texts))"
proof -
  assume a: "i \<le> length texts"
  have "map (\<lambda>j. texts ! j) [0..<i] = take i (map (\<lambda>j. texts ! j) [0..<length texts])"
    using a by (simp add: take_map)
  also have "\<dots> = take i texts"
    by (simp only: map_nth)
  finally have "take i texts = map (\<lambda>j. texts ! j) [0..<i]" by simp
  then show ?thesis by (simp add: filter_map comp_def)
qed

lemma distinct_nonEmptyIndices: "distinct (map fst (nonEmptyEntries texts))"
  by (simp add: nonEmptyIndices_eq)

lemma nonEmptyIndices_bound: "\<forall>i\<in>set (map fst (nonEmptyEntries texts)). i < length texts"
  by (simp add: nonEmptyIndices_eq)

lemma nonEmptyIndices_rank:
  assumes "i < length texts" and "trim (texts ! i) \<noteq> []"
  shows "map fst (nonEmptyEntries texts) ! length (filter (\<lambda>t. trim t \<noteq> []) (take i texts)) = i"
proof -
  have "filter (\<lambda>j. trim (texts ! j) \<noteq> []) [0..<length texts]
          ! length (filter (\<lambda>j. trim (texts ! j) \<noteq> []) [0..<i]) = i"
    using assms by (intro filter_upt_rank) simp_all
  with assms(1) show ?thesis
    by (simp add: nonEmptyIndices_eq rank_take)
qed

lemma rank_less:
  assumes "i < length texts" and "trim (texts ! i) \<noteq> []"
  shows "length (filter (\<lambda>t. trim t \<noteq> []) (take i texts)) < length (filter (\<lambda>t. trim t \<noteq> []) texts)"
proof -
  have "texts = take i texts @ texts ! i # drop (Suc i) texts"
    using assms(1) by (rule id_take_nth_drop)
  then have "filter (\<lambda>t. trim t \<noteq> []) texts
      = filter (\<lambda>t. trim t \<noteq> []) (take i texts @ texts ! i # drop (Suc i) texts)"
    by simp
  also have "\<dots> = filter (\<lambda>t. trim t \<noteq> []) (take i texts)
      @ texts ! i # filter (\<lambda>t. trim t \<noteq> []) (drop (Suc i) texts)"
    using assms(2) by simp
  finally show ?thesis by simp
qed

lemma translateBatch_length:
  "length (fst (translateBatch key fetch texts sourceLang targetLang)) = length texts"
  by (simp add: translateBatch_def Let_def length_writeTranslations
      split: fetch_outcome.splits option.splits)

lemma translateBatch_blank:
  assumes "i < length texts" and "trim (texts ! i) = []"
  shows "fst (translateBatch key fetch texts sourceLang targetLang) ! i = texts ! i"
proof -
  have "i \<notin> set (map fst (nonEmptyEntries texts))"
    using assms by (simp add: nonEmptyIndices_eq)
  then have "writeTranslations (map fst (nonEmptyEntries texts)) ts texts ! i = texts ! i"
    if "length ts = length (map snd (nonEmptyEntries texts))" for ts
    using that by (intro writeTranslations_other) simp_all
  then show ?thesis
    by (simp add: translateBatch_def Let_def split: fetch_outcome.splits option.splits)
qed

lemma translateBatch_requests:
  "r \<in> set (snd (translateBatch key fetch texts sourceLang targetLang))
   \<Longrightarrow> r = batchRequestBody (filter (\<lambda>t. trim t \<noteq> []) texts) sourceLang targetLang"
  by (auto simp: translateBatch_def Let_def nonEmptyTexts_eq
      split: if_splits fetch_outcome.splits option.splits)

lemma translateBatch_translated:
  assumes "truthy key"
    and "fetch (batchRequestBody (filter (\<lambda>t. trim t \<noteq> []) texts) sourceLang targetLang)
           = JsonData (Some translations)"
    and "length translations = length (filter (\<lambda>t. trim t \<noteq> []) texts)"
    and "i < length texts" and "trim (texts ! i) \<noteq> []"
  shows "fst (translateBatch key fetch texts sourceLang targetLang) ! i
         = translations ! length (filter (\<lambda>t. trim t \<noteq> []) (take i texts))"
proof -
  let ?k = "length (filter (\<lambda>t. trim t \<noteq> []) (take i texts))"
  let ?is = "map fst (nonEmptyEntries texts)"
  have k: "?k < length translations"
    using assms rank_less by simp
  have len: "length translations \<le> length ?is"
    using assms(3) nonEmptyTexts_eq [of texts, symmetric] by (metis length_map order_refl)
  have "writeTranslations ?is translations texts ! (?is ! ?k) = translations ! ?k"
    using len distinct_nonEmptyIndices nonEmptyIndices_bound k by (rule writeTranslations_at)
  then have w: "writeTranslations ?is translations texts ! i = translations ! ?k"
    using assms(4,5) by (simp add: nonEmptyIndices_rank)
  have ne: "filter (\<lambda>t. trim t \<noteq> []) texts \<noteq> []"
    using k assms(3) by auto
  have "texts \<noteq> []" using assms(4) by auto
  with assms(1,2,3) ne w show ?thesis
    by (simp add: translateBatch_def Let_def nonEmptyTexts_eq)
qed

subsection \<open>Claims about the provider's batch translation\<close>

text \<open>
  C2. For every input array and target language, \<open>translateBatch\<close> of the provider returns
  an array of the length of the input; every empty or whitespace-only entry is returned
  unchanged at its index and is left out of the request sent to the provider, whose texts
  are the other entries in their order; every other entry is either unchanged or, when
  the provider answers with as many translations as it was sent texts, the translation
  at the rank of the entry among the entries sent. With a credential configured and a
  provider that answers \<open>Salut\<close> for \<open>Hi\<close>, the input \<open>["", "Hi", "   "]\<close> with target
  \<open>fr\<close> gives \<open>["", "Salut", "   "]\<close>.
\<close>

theorem translateBatch_same_length_and_order:
  "length (fst (translateBatch key fetch texts sourceLang targetLang)) = length texts \<and>
   (\<forall>i<length texts. trim (texts ! i) = [] \<longrightarrow>
      fst (translateBatch key fetch texts sourceLang targetLang) ! i = texts ! i) \<and>
   (\<forall>r\<in>set (snd (translateBatch key fetch texts sourceLang targetLang)).
      text_field r = filter (\<lambda>t. trim t \<noteq> []) texts) \<and>
   (\<forall>translations.
      truthy key \<longrightarrow>
      fetch (batchRequestBody (filter (\<lambda>t. trim t \<noteq> []) texts) sourceLang targetLang)
        = JsonData (Some translations) \<longrightarrow>
      length translations = length (filter (\<lambda>t. trim t \<noteq> []) texts) \<longrightarrow>
      (\<forall>i<length texts. trim (texts ! i) \<noteq> [] \<longrightarrow>
         fst (translateBatch key fetch texts sourceLang targetLang) ! i
         = translations ! length (filter (\<lambda>t. trim t \<noteq> []) (take i texts)))) \<and>
   (truthy key \<longrightarrow>
    fetch (batchRequestBody [''Hi''] None ''fr'') = JsonData (Some [''Salut'']) \<longrightarrow>
    fst (translateBatch key fetch ['''', ''Hi'', ''   ''] None ''fr'') = ['''', ''Salut'', ''   ''])"
proof (intro conjI allI impI ballI)
  show "length (fst (translateBatch key fetch texts sourceLang targetLang)) = length texts"
    by (rule translateBatch_length)
next
  fix i assume "i < length texts" "trim (texts ! i) = []"
  then show "fst (translateBatch key fetch texts sourceLang targetLang) ! i = texts ! i"
    by (rule translateBatch_blank)
next
  fix r assume "r \<in> set (snd (translateBatch key fetch texts sourceLang targetLang))"
  then have "r = batchRequestBody (filter (\<lambda>t. trim t \<noteq> []) texts) sourceLang targetLang"
    by (rule translateBatch_requests)
  then show "text_field r = filter (\<lambda>t. trim t \<noteq> []) texts"
    by (simp add: batchRequestBody_def)
next
  fix ts i
  assume "truthy key"
    and "fetch (batchRequestBody (filter (\<lambda>t. trim t \<noteq> []) texts) sourceLang targetLang)
           = JsonData (Some ts)"
    and "length ts = length (filter (\<lambda>t. trim t \<noteq> []) texts)"
    and "i < length texts" and "trim (texts ! i) \<noteq> []"
  then show "fst (translateBatch key fetch texts sourceLang targetLang) ! i
         = ts ! length (filter (\<lambda>t. trim t \<noteq> []) (take i texts))"
    by (rule translateBatch_translated)
next
  assume "truthy key"
    and "fetch (batchRequestBody [''Hi''] None ''fr'') = JsonData (Some [''Salut''])"
  then show "fst (translateBatch key fetch ['''', ''Hi'', ''   ''] None ''fr'')
      = ['''', ''Salut'', ''   '']"
    by (simp add: translateBatch_def nonEmptyEntries_def trim_def isWhiteSpace_def
        writeTranslations_def)
qed

text \<open>The scenario of C2 with a concrete provider: the key is set and the provider answers
  \<open>Salut\<close> to every request.\<close>

theorem translateBatch_same_length_and_order_witness:
  "translateBatch (Some ''key'') (\<lambda>r. JsonData (Some [''Salut''])) ['''', ''Hi'', ''   ''] None ''fr''
     = (['''', ''Salut'', ''   ''],
        [\<lparr>text_field = [''Hi''], target_lang = ''FR'', source_lang = None\<rparr>])"
proof -
  let ?out = "translateBatch (Some ''key'') (\<lambda>r. JsonData (Some [''Salut'']))
      ['''', ''Hi'', ''   ''] None ''fr''"
  note c2 = translateBatch_same_length_and_order [of "Some ''key''" "\<lambda>r. JsonData (Some [''Salut''])"
      "['''', ''Hi'', ''   '']" None "''fr''"]
  from c2 have "fst ?out = ['''', ''Salut'', ''   '']"
    by simp
  moreover have "snd ?out = [\<lparr>text_field = [''Hi''], target_lang = ''FR'', source_lang = None\<rparr>]"
    by (simp add: translateBatch_def nonEmptyEntries_def trim_def isWhiteSpace_def
        batchRequestBody_def toUpperCase_def toUpperChar_def)
  ultimately show ?thesis
    by (simp add: prod_eq_iff)
qed

text \<open>
  C3. Whenever the batch call of the provider fails in any of these ways,
  \<open>translateBatch\<close> returns the whole input array unchanged.
\<close>

theorem translateBatch_failure_returns_input:
  "batchFails key
     (fetch (batchRequestBody (filter (\<lambda>t. trim t \<noteq> []) texts) sourceLang targetLang))
     (length (filter (\<lambda>t. trim t \<noteq> []) texts))
   \<Longrightarrow> fst (translateBatch key fetch texts sourceLang targetLang) = texts"
  by (auto simp: batchFails_def translateBatch_def Let_def nonEmptyTexts_eq
      split: fetch_outcome.splits option.splits)

theorem translateBatch_failure_returns_input_witness:
  "batchFails (Some ''key'') NetworkError 1 \<and>
   batchFails (Some ''key'') (JsonData (Some [''Hallo'', ''Welt''])) 1 \<and>
   fst (translateBatch (Some ''key'') (\<lambda>r. NetworkError) ['''', ''Hi''] None ''de'') = ['''', ''Hi''] \<and>
   fst (translateBatch (Some ''key'') (\<lambda>r. JsonData (Some [''Hallo'', ''Welt''])) ['''', ''Hi''] None ''de'')
     = ['''', ''Hi'']"
proof -
  have f: "filter (\<lambda>t. trim t \<noteq> []) ['''', ''Hi''] = [''Hi'']"
    by (simp add: trim_def isWhiteSpace_def)
  have a: "batchFails (Some ''key'') NetworkError 1"
    and b: "batchFails (Some ''key'') (JsonData (Some [''Hallo'', ''Welt''])) 1"
    by (simp_all add: batchFails_def)
  have a': "batchFails (Some ''key'')
      ((\<lambda>r. NetworkError) (batchRequestBody (filter (\<lambda>t. trim t \<noteq> []) ['''', ''Hi'']) None ''de''))
      (length (filter (\<lambda>t. trim t \<noteq> []) ['''', ''Hi'']))"
    using a by (simp only: f) simp
  have b': "batchFails (Some ''key'')
      ((\<lambda>r. JsonData (Some [''Hallo'', ''Welt'']))
         (batchRequestBody (filter (\<lambda>t. trim t \<noteq> []) ['''', ''Hi'']) None ''de''))
      (length (filter (\<lambda>t. trim t \<noteq> []) ['''', ''Hi'']))"
    using b by (simp only: f) simp
  show ?thesis
    using a b translateBatch_failure_returns_input [OF a'] translateBatch_failure_returns_input [OF b']
    by simp
qed

subsection \<open>Facts about the orchestrator\<close>

lemma translateText_fails:
  "translationFails key (fetch (singleRequestBody text sourceLang targetLang))
   \<Longrightarrow> fst (translateText key fetch text sourceLang targetLang) = text"
  unfolding translationFails_def translateText_def singleRequestBody_def Let_def
  by (auto split: fetch_outcome.splits option.splits list.splits)

subsection \<open>Claim about the orchestrator under provider failure\<close>

text \<open>
  C1 as stated (provider failure returns the content and writes no cache entry) is false:
  with an empty table and a provider that cannot be reached, the call returns
  \<open>Hello\<close> and the table afterwards has an entry for the key of the call.
\<close>

theorem translateForUser_failure_writes_cache:
  "providerReached id offlineEnv Map.empty helloParams \<and>
   translationFails (DEEPL_API_KEY offlineEnv)
     (deeplFetch offlineEnv (singleRequestBody ''Hello'' ''en'' ''de'')) \<and>
   fst (translateForUser id offlineEnv Map.empty helloParams) = ''Hello'' \<and>
   snd (translateForUser id offlineEnv Map.empty helloParams) (''Post'', ''p1'', ''title'', ''de'')
     = Some \<lparr>row_sourceLanguage = ''en'', row_sourceHash = ''Hello'',
              row_translatedContent = ''Hello'', row_modelProvider = ''deepl'',
              row_modelVersion = ''v2'', row_confidenceScore = None\<rparr> \<and>
   snd (translateForUser id offlineEnv Map.empty helloParams) \<noteq> Map.empty"
proof -
  have t: "trim ''Hello'' = ''Hello''"
    by (simp add: trim_def isWhiteSpace_def)
  have r: "providerReached id offlineEnv Map.empty helloParams"
    by (simp add: providerReached_def offlineEnv_def helloParams_def t
        getCachedTranslationWithHash_def)
  have f: "translationFails (DEEPL_API_KEY offlineEnv)
     (deeplFetch offlineEnv (singleRequestBody ''Hello'' ''en'' ''de''))"
    by (simp add: translationFails_def offlineEnv_def unreachableProvider_def)
  have x: "translateText (Some ''key'') unreachableProvider ''Hello'' ''en'' ''de''
      = (''Hello'', [singleRequestBody ''Hello'' ''en'' ''de''])"
    by (simp add: translateText_def t unreachableProvider_def singleRequestBody_def)
  have v: "translateForUser id offlineEnv Map.empty helloParams
      = (''Hello'', [(''Post'', ''p1'', ''title'', ''de'') \<mapsto>
           \<lparr>row_sourceLanguage = ''en'', row_sourceHash = ''Hello'',
            row_translatedContent = ''Hello'', row_modelProvider = ''deepl'',
            row_modelVersion = ''v2'', row_confidenceScore = None\<rparr>])"
    by (simp add: translateForUser_def offlineEnv_def helloParams_def t x Let_def
        getCachedTranslationWithHash_def setCachedTranslation_def MODEL_PROVIDER_def
        MODEL_VERSION_def)
  from v have "snd (translateForUser id offlineEnv Map.empty helloParams) \<noteq> Map.empty"
    by simp
  with r f v show ?thesis by simp
qed

text \<open>
  C1, amended. For every call to \<open>translateForUser\<close> that reaches the provider (the
  languages differ, the content is not blank, the cache has no usable entry) and in
  which the provider fails, the call returns the original content unchanged, and the
  cache write is issued all the same, with the original content as the translation:
  unless the write itself throws, the table afterwards holds, at the key of the call,
  the original content with its hash.
\<close>

theorem translateForUser_failure_returns_content:
  assumes "providerReached hashContent env table params"
    and "translationFails (DEEPL_API_KEY env)
           (deeplFetch env (singleRequestBody (content params) (sourceLanguage params)
              (targetLanguage params)))"
  shows "fst (translateForUser hashContent env table params) = content params \<and>
         (upsertThrows env \<longrightarrow> snd (translateForUser hashContent env table params) = table) \<and>
         (\<not> upsertThrows env \<longrightarrow>
            (\<exists>row. snd (translateForUser hashContent env table params)
                      = table((entityType params, entityId params, fieldName params,
                               targetLanguage params) \<mapsto> row) \<and>
                   row_translatedContent row = content params \<and>
                   row_sourceHash row = hashContent (content params) \<and>
                   row_sourceLanguage row = sourceLanguage params))"
proof -
  from assms(2) have t: "fst (translateText (DEEPL_API_KEY env) (deeplFetch env) (content params)
      (sourceLanguage params) (targetLanguage params)) = content params"
    by (rule translateText_fails)
  from assms(1) have ne: "content params \<noteq> []"
    by (auto simp: providerReached_def trim_def)
  let ?p = "\<lparr>p_entityType = entityType params,
                    p_entityId = entityId params,
                    p_fieldName = fieldName params,
                    p_sourceLanguage = sourceLanguage params,
                    p_sourceHash = hashContent (content params),
                    p_targetLanguage = targetLanguage params,
                    p_translatedContent = content params,
                    p_modelProvider = MODEL_PROVIDER,
                    p_modelVersion = MODEL_VERSION,
                    p_confidenceScore = None\<rparr>"
  from assms(1) t ne have v: "translateForUser hashContent env table params
      = (content params, setCachedTranslation (upsertThrows env) table ?p)"
    by (simp add: providerReached_def translateForUser_def Let_def)
  have a: "upsertThrows env \<Longrightarrow> setCachedTranslation (upsertThrows env) table ?p = table"
    by (simp add: setCachedTranslation_def)
  have b: "\<exists>row. setCachedTranslation (upsertThrows env) table ?p
                      = table((entityType params, entityId params, fieldName params,
                               targetLanguage params) \<mapsto> row) \<and>
                   row_translatedContent row = content params \<and>
                   row_sourceHash row = hashContent (content params) \<and>
                   row_sourceLanguage row = sourceLanguage params" if "\<not> upsertThrows env"
    using that unfolding setCachedTranslation_def Let_def
    by (intro exI conjI) (simp, simp_all)
  from v a b show ?thesis by simp
qed

theorem translateForUser_failure_returns_content_witness:
  "fst (translateForUser id offlineEnv Map.empty helloParams) = content helloParams \<and>
   (\<exists>row. snd (translateForUser id offlineEnv Map.empty helloParams)
             = [(''Post'', ''p1'', ''title'', ''de'') \<mapsto> row] \<and>
          row_translatedContent row = ''Hello'')"
proof -
  have t: "trim ''Hello'' = ''Hello''"
    by (simp add: trim_def isWhiteSpace_def)
  have r: "providerReached id offlineEnv Map.empty helloParams"
    by (simp add: providerReached_def offlineEnv_def helloParams_def t
        getCachedTranslationWithHash_def)
  have f: "translationFails (DEEPL_API_KEY offlineEnv)
     (deeplFetch offlineEnv (singleRequestBody (content helloParams) (sourceLanguage helloParams)
        (targetLanguage helloParams)))"
    by (simp add: translationFails_def offlineEnv_def unreachableProvider_def)
  have u: "\<not> upsertThrows offlineEnv"
    by (simp add: offlineEnv_def)
  from translateForUser_failure_returns_content [OF r f] u show ?thesis
    by (auto simp: helloParams_def)
qed

subsection \<open>Facts about the rate limiter and the endpoint\<close>

lemma getRateLimitInfo_fresh:
  assumes "requestCounts ip = None \<or> (\<exists>rec. requestCounts ip = Some rec \<and> now > resetTime rec)"
  shows "getRateLimitInfo now requestCounts ip
         = (\<lparr>allowed = True, remaining = 99\<rparr>,
            requestCounts(ip \<mapsto> \<lparr>count = 1, resetTime = now + RATE_WINDOW\<rparr>))"
  using assms by (auto simp: getRateLimitInfo_def RATE_LIMIT_def)

lemma getRateLimitInfo_below:
  assumes "requestCounts ip = Some \<lparr>count = c, resetTime = T\<rparr>" and "now \<le> T" and "c < 100"
  shows "getRateLimitInfo now requestCounts ip
         = (\<lparr>allowed = True, remaining = 99 - int c\<rparr>,
            requestCounts(ip \<mapsto> \<lparr>count = Suc c, resetTime = T\<rparr>))"
  using assms by (simp add: getRateLimitInfo_def RATE_LIMIT_def)

lemma getRateLimitInfo_blocked:
  assumes "requestCounts ip = Some rec" and "now \<le> resetTime rec" and "count rec \<ge> 100"
  shows "getRateLimitInfo now requestCounts ip = (\<lparr>allowed = False, remaining = 0\<rparr>, requestCounts)"
  using assms by (simp add: getRateLimitInfo_def RATE_LIMIT_def)

lemma handleBody_status:
  assumes "handleBody env rateLimit body = Inr r"
  shows "status r \<in> {200, 400, 500}"
  using assms unfolding handleBody_def Let_def badRequest_def serverError_def catchBlock_def
  by (auto split: request_body.splits option.splits js_value.splits prod.splits if_splits)

lemma handleBody_not_429:
  assumes "handleBody env rateLimit body = Inr r"
  shows "status r \<noteq> 429"
  using handleBody_status [OF assms] by auto

text \<open>The valid payloads are the ones that are answered with status 200.\<close>

lemma handleBody_valid:
  assumes "validPayload body"
  shows "\<exists>r. handleBody env rateLimit body = Inr r \<and> status r = 200"
  using assms unfolding validPayload_def handleBody_def Let_def
  by (auto split: request_body.splits option.splits js_value.splits prod.splits if_splits)

lemma handleBody_200_valid:
  assumes "handleBody env rateLimit body = Inr r" and "status r = 200"
  shows "validPayload body"
  using assms unfolding validPayload_def handleBody_def Let_def badRequest_def serverError_def
    catchBlock_def
  by (auto split: request_body.splits option.splits js_value.splits prod.splits if_splits)

text \<open>A body that was read and does not give an answer makes the handler throw.\<close>

lemma handleBody_malformed: "handleBody env rateLimit Malformed = Inl TypeError"
  by (simp add: handleBody_def catchBlock_def)

lemma handleBody_no_body: "handleBody env rateLimit NoBody = Inr serverError"
  by (simp add: handleBody_def catchBlock_def)

lemma POST_allowed:
  assumes "getRateLimitInfo now requestCounts (clientIp request) = (rl, requestCounts')" and "allowed rl"
  shows "POST env now requestCounts request = (handleBody env rl (json request), requestCounts')"
  using assms by (simp add: POST_def)

lemma POST_blocked:
  assumes "getRateLimitInfo now requestCounts (clientIp request) = (rl, requestCounts')" and "\<not> allowed rl"
  shows "POST env now requestCounts request = (Inr rateLimitedResponse, requestCounts')"
  using assms by (simp add: POST_def)

lemma length_serve: "length (fst (serve env requestCounts reqs)) = length reqs"
  by (induction reqs arbitrary: requestCounts) (auto simp: Let_def)

text \<open>Requests of one client inside its window, while the counter stays within the limit.\<close>

lemma serve_within_window:
  assumes "requestCounts ip = Some \<lparr>count = c, resetTime = T\<rparr>"
    and "\<forall>(now, request) \<in> set reqs. clientIp request = ip \<and> now \<le> T"
    and "c + length reqs \<le> 100"
  shows "snd (serve env requestCounts reqs) ip = Some \<lparr>count = c + length reqs, resetTime = T\<rparr> \<and>
         (\<forall>i<length reqs. \<exists>rl. allowed rl \<and>
            fst (serve env requestCounts reqs) ! i = handleBody env rl (json (snd (reqs ! i))))"
  using assms
proof (induction reqs arbitrary: requestCounts c)
  case Nil
  then show ?case by simp
next
  case (Cons a reqs)
  obtain now request where a: "a = (now, request)" by (cases a)
  from Cons.prems a have ip: "clientIp request = ip" and now: "now \<le> T" and c: "c < 100"
    by auto
  let ?rl = "\<lparr>allowed = True, remaining = 99 - int c\<rparr>"
  let ?counts = "requestCounts(ip \<mapsto> \<lparr>count = Suc c, resetTime = T\<rparr>)"
  have g: "getRateLimitInfo now requestCounts (clientIp request) = (?rl, ?counts)"
    using Cons.prems(1) now c unfolding ip by (rule getRateLimitInfo_below)
  have p: "POST env now requestCounts request = (handleBody env ?rl (json request), ?counts)"
    using g by (rule POST_allowed) simp
  have "?counts ip = Some \<lparr>count = Suc c, resetTime = T\<rparr>" by simp
  moreover from Cons.prems have "\<forall>(now, request) \<in> set reqs. clientIp request = ip \<and> now \<le> T"
    by auto
  moreover from Cons.prems have "Suc c + length reqs \<le> 100" by simp
  ultimately have ih:
    "snd (serve env ?counts reqs) ip = Some \<lparr>count = Suc c + length reqs, resetTime = T\<rparr> \<and>
     (\<forall>i<length reqs. \<exists>rl. allowed rl \<and>
        fst (serve env ?counts reqs) ! i = handleBody env rl (json (snd (reqs ! i))))"
    by (rule Cons.IH)
  have s: "serve env requestCounts (a # reqs)
      = (handleBody env ?rl (json request) # fst (serve env ?counts reqs), snd (serve env ?counts reqs))"
    by (simp add: a p Let_def)
  show ?case
  proof (intro conjI allI impI)
    show "snd (serve env requestCounts (a # reqs)) ip
        = Some \<lparr>count = c + length (a # reqs), resetTime = T\<rparr>"
      using ih s by simp
  next
    fix i assume i: "i < length (a # reqs)"
    show "\<exists>rl. allowed rl \<and>
        fst (serve env requestCounts (a # reqs)) ! i = handleBody env rl (json (snd ((a # reqs) ! i)))"
    proof (cases i)
      case 0
      have "allowed ?rl" by simp
      with 0 s a show ?thesis by (metis fst_conv nth_Cons_0 snd_conv)
    next
      case (Suc j)
      with i have "j < length reqs" by simp
      with ih obtain rl where "allowed rl"
        "fst (serve env ?counts reqs) ! j = handleBody env rl (json (snd (reqs ! j)))"
        by blast
      with Suc s show ?thesis by auto
    qed
  qed
qed

lemma serve_append:
  "serve env requestCounts (xs @ ys)
   = (fst (serve env requestCounts xs) @ fst (serve env (snd (serve env requestCounts xs)) ys),
      snd (serve env (snd (serve env requestCounts xs)) ys))"
  by (induction xs arbitrary: requestCounts) (auto simp: Let_def)

lemma serve_window_full:
  assumes "length mid = 99"
    and "\<forall>(now, request) \<in> set (a # mid @ [z]). clientIp request = ip"
    and "requestCounts ip = None \<or> (\<exists>rec. requestCounts ip = Some rec \<and> resetTime rec < fst a)"
    and "\<forall>(now, request) \<in> set (mid @ [z]). now \<le> fst a + RATE_WINDOW"
  shows "(\<forall>i<100. \<exists>rl. allowed rl \<and>
            fst (serve env requestCounts (a # mid @ [z])) ! i
              = handleBody env rl (json (snd ((a # mid @ [z]) ! i)))) \<and>
         fst (serve env requestCounts (a # mid @ [z])) ! 100 = Inr rateLimitedResponse"
proof -
  obtain t1 q1 where a: "a = (t1, q1)" by (cases a)
  obtain tz qz where z: "z = (tz, qz)" by (cases z)
  let ?T = "t1 + RATE_WINDOW"
  let ?rl1 = "\<lparr>allowed = True, remaining = 99\<rparr>"
  let ?c1 = "requestCounts(ip \<mapsto> \<lparr>count = Suc 0, resetTime = ?T\<rparr>)"
  from assms(2) a z have ip1: "clientIp q1 = ip" and ipz: "clientIp qz = ip" by auto
  have g1: "getRateLimitInfo t1 requestCounts (clientIp q1) = (?rl1, ?c1)"
    unfolding ip1 using assms(3) a getRateLimitInfo_fresh [of requestCounts ip t1] by auto
  have p1: "POST env t1 requestCounts q1 = (handleBody env ?rl1 (json q1), ?c1)"
    using g1 by (rule POST_allowed) simp
  have c1: "?c1 ip = Some \<lparr>count = Suc 0, resetTime = ?T\<rparr>" by simp
  have m: "\<forall>(now, request) \<in> set mid. clientIp request = ip \<and> now \<le> ?T"
    using assms(2,4) a by auto
  have "Suc 0 + length mid \<le> 100" using assms(1) by simp
  with c1 m have w:
    "snd (serve env ?c1 mid) ip = Some \<lparr>count = Suc 0 + length mid, resetTime = ?T\<rparr> \<and>
     (\<forall>i<length mid. \<exists>rl. allowed rl \<and>
        fst (serve env ?c1 mid) ! i = handleBody env rl (json (snd (mid ! i))))"
    by (rule serve_within_window)
  let ?c2 = "snd (serve env ?c1 mid)"
  from w assms(1) have c2: "?c2 ip = Some \<lparr>count = 100, resetTime = ?T\<rparr>" by simp
  from assms(4) a z have tz: "tz \<le> ?T" by auto
  have gz: "getRateLimitInfo tz ?c2 (clientIp qz) = (\<lparr>allowed = False, remaining = 0\<rparr>, ?c2)"
    unfolding ipz
    using tz getRateLimitInfo_blocked [of ?c2 ip "\<lparr>count = 100, resetTime = ?T\<rparr>" tz, OF c2]
    by simp
  have pz: "POST env tz ?c2 qz = (Inr rateLimitedResponse, ?c2)"
    using gz by (rule POST_blocked) simp
  have lm: "length (fst (serve env ?c1 mid)) = 99"
    using assms(1) by (simp add: length_serve)
  have s: "fst (serve env requestCounts (a # mid @ [z]))
      = handleBody env ?rl1 (json q1) # fst (serve env ?c1 mid) @ [Inr rateLimitedResponse]"
    by (simp add: a z p1 pz serve_append Let_def)
  show ?thesis
  proof (intro conjI allI impI)
    fix i :: nat assume i: "i < 100"
    show "\<exists>rl. allowed rl \<and>
            fst (serve env requestCounts (a # mid @ [z])) ! i
              = handleBody env rl (json (snd ((a # mid @ [z]) ! i)))"
    proof (cases i)
      case 0
      have "allowed ?rl1" by simp
      moreover have "fst (serve env requestCounts (a # mid @ [z])) ! 0
          = handleBody env ?rl1 (json (snd ((a # mid @ [z]) ! 0)))"
        unfolding s by (simp add: a)
      ultimately show ?thesis unfolding 0 by blast
    next
      case (Suc j)
      with i assms(1) have j: "j < length mid" by simp
      with w obtain rl where rl: "allowed rl"
        "fst (serve env ?c1 mid) ! j = handleBody env rl (json (snd (mid ! j)))"
        by blast
      from j lm assms(1) have "fst (serve env requestCounts (a # mid @ [z])) ! Suc j
          = fst (serve env ?c1 mid) ! j"
        unfolding s by (simp add: nth_append)
      moreover from j have "(a # mid @ [z]) ! Suc j = mid ! j"
        by (simp add: nth_append)
      ultimately show ?thesis using rl unfolding Suc by auto
    qed
  next
    show "fst (serve env requestCounts (a # mid @ [z])) ! 100 = Inr rateLimitedResponse"
      unfolding s using lm by (simp add: nth_append)
  qed
qed

lemma getRateLimitInfo_keeps_window:
  assumes "requestCounts ip = Some rec" and "now \<le> resetTime rec"
  shows "map_option resetTime (snd (getRateLimitInfo now requestCounts ip) ip) = Some (resetTime rec)"
  using assms by (simp add: getRateLimitInfo_def)

lemma validPayload_helloRequest: "validPayload (json helloRequest)"
  by (simp add: validPayload_def helloRequest_def)

subsection \<open>Claim about the rate limit\<close>

text \<open>
  C6. Take 101 POST requests of one client IP: a first one that opens a window (the IP
  has no counter, or its window has expired), and 100 more that arrive before that
  window expires. The first 100 are allowed: each of them passes the rate limit and
  gets what the handler behind the limit does with its body, which is never an answer
  with status 429, and is an answer with status 200 when the payload is valid. The
  101st is answered with status 429 and a \<open>Retry-After\<close> header. The window is reset by
  the first request that arrives after its expiry, which is allowed and starts a new
  window at its own time; a request that arrives before the expiry leaves the expiry
  time as it is.
\<close>

theorem rate_limit_101st_request:
  assumes "length mid = 99"
    and "\<forall>(now, request) \<in> set (r1 # mid @ [r101]). clientIp request = ip"
    and "requestCounts ip = None \<or> (\<exists>rec. requestCounts ip = Some rec \<and> resetTime rec < fst r1)"
    and "\<forall>(now, request) \<in> set (mid @ [r101]). now \<le> fst r1 + RATE_WINDOW"
  shows "(\<forall>i<100.
            (\<exists>rl. allowed rl \<and>
               fst (serve env requestCounts (r1 # mid @ [r101])) ! i
                 = handleBody env rl (json (snd ((r1 # mid @ [r101]) ! i)))) \<and>
            (\<forall>r. fst (serve env requestCounts (r1 # mid @ [r101])) ! i = Inr r \<longrightarrow> status r \<noteq> 429) \<and>
            (validPayload (json (snd ((r1 # mid @ [r101]) ! i))) \<longrightarrow>
               (\<exists>r. fst (serve env requestCounts (r1 # mid @ [r101])) ! i = Inr r \<and> status r = 200))) \<and>
         (\<exists>r. fst (serve env requestCounts (r1 # mid @ [r101])) ! 100 = Inr r \<and>
              status r = 429 \<and> (''Retry-After'', ''60'') \<in> set (headers r)) \<and>
         (\<forall>counts rec now. counts ip = Some rec \<and> resetTime rec < now \<longrightarrow>
            getRateLimitInfo now counts ip
              = (\<lparr>allowed = True, remaining = 99\<rparr>,
                 counts(ip \<mapsto> \<lparr>count = 1, resetTime = now + RATE_WINDOW\<rparr>))) \<and>
         (\<forall>counts rec now. counts ip = Some rec \<and> now \<le> resetTime rec \<longrightarrow>
            map_option resetTime (snd (getRateLimitInfo now counts ip) ip) = Some (resetTime rec))"
proof -
  let ?reqs = "r1 # mid @ [r101]"
  let ?responses = "fst (serve env requestCounts ?reqs)"
  from assms have w:
    "(\<forall>i<100. \<exists>rl. allowed rl \<and>
        ?responses ! i = handleBody env rl (json (snd (?reqs ! i)))) \<and>
     ?responses ! 100 = Inr rateLimitedResponse"
    by (rule serve_window_full)
  have a: "(\<exists>rl. allowed rl \<and> ?responses ! i = handleBody env rl (json (snd (?reqs ! i)))) \<and>
           (\<forall>r. ?responses ! i = Inr r \<longrightarrow> status r \<noteq> 429) \<and>
           (validPayload (json (snd (?reqs ! i))) \<longrightarrow>
              (\<exists>r. ?responses ! i = Inr r \<and> status r = 200))"
    if "i < 100" for i
  proof -
    from w that obtain rl where rl: "allowed rl"
      "?responses ! i = handleBody env rl (json (snd (?reqs ! i)))"
      by blast
    have "status r \<noteq> 429" if "?responses ! i = Inr r" for r
      using that rl(2) handleBody_not_429 [of env rl "json (snd (?reqs ! i))" r] by simp
    moreover have "\<exists>r. ?responses ! i = Inr r \<and> status r = 200"
      if "validPayload (json (snd (?reqs ! i)))"
      using handleBody_valid [OF that, of env rl] rl(2) by simp
    ultimately show ?thesis using rl by blast
  qed
  from w have b: "\<exists>r. ?responses ! 100 = Inr r \<and>
      status r = 429 \<and> (''Retry-After'', ''60'') \<in> set (headers r)"
    by (simp add: rateLimitedResponse_def)
  have d: "getRateLimitInfo now counts ip
      = (\<lparr>allowed = True, remaining = 99\<rparr>,
         counts(ip \<mapsto> \<lparr>count = 1, resetTime = now + RATE_WINDOW\<rparr>))"
    if "counts ip = Some rec \<and> resetTime rec < now" for counts rec now
    using that by (intro getRateLimitInfo_fresh) auto
  have e: "map_option resetTime (snd (getRateLimitInfo now counts ip) ip) = Some (resetTime rec)"
    if "counts ip = Some rec \<and> now \<le> resetTime rec" for counts rec now
    using that by (intro getRateLimitInfo_keeps_window) auto
  from a b d e show ?thesis by blast
qed

theorem rate_limit_101st_request_witness:
  "(\<exists>r. fst (serve offlineEnv Map.empty
            ((0, helloRequest) # replicate 99 (1000, helloRequest) @ [(59000, helloRequest)])) ! 0 = Inr r \<and>
        status r = 200) \<and>
   (\<exists>r. fst (serve offlineEnv Map.empty
            ((0, helloRequest) # replicate 99 (1000, helloRequest) @ [(59000, helloRequest)])) ! 99 = Inr r \<and>
        status r = 200) \<and>
   (\<exists>r. fst (serve offlineEnv Map.empty
            ((0, helloRequest) # replicate 99 (1000, helloRequest) @ [(59000, helloRequest)])) ! 100 = Inr r \<and>
        status r = 429 \<and> (''Retry-After'', ''60'') \<in> set (headers r))"
proof -
  let ?reqs = "(0 :: int, helloRequest) # replicate 99 (1000, helloRequest) @ [(59000, helloRequest)]"
  have 1: "length (replicate 99 (1000 :: int, helloRequest)) = 99" by simp
  have 2: "\<forall>(now, request) \<in> set ?reqs. clientIp request = ''203.0.113.7''"
    by (simp add: clientIp_def helloRequest_def)
  have 3: "Map.empty ''203.0.113.7'' = None \<or>
      (\<exists>rec. Map.empty ''203.0.113.7'' = Some rec \<and> resetTime rec < fst (0 :: int, helloRequest))"
    by simp
  have 4: "\<forall>(now, request) \<in> set (replicate 99 (1000, helloRequest) @ [(59000, helloRequest)]).
      now \<le> fst (0 :: int, helloRequest) + RATE_WINDOW"
    by (simp add: RATE_WINDOW_def)
  have v0: "validPayload (json (snd (?reqs ! 0)))"
    by (simp add: validPayload_helloRequest)
  have v99: "validPayload (json (snd (?reqs ! 99)))"
    by (simp add: nth_append validPayload_helloRequest)
  let ?responses = "fst (serve offlineEnv Map.empty ?reqs)"
  from rate_limit_101st_request [OF 1 2 3 4, of offlineEnv]
  have f: "\<forall>i<100. validPayload (json (snd (?reqs ! i))) \<longrightarrow>
             (\<exists>r. ?responses ! i = Inr r \<and> status r = 200)"
    and l: "\<exists>r. ?responses ! 100 = Inr r \<and>
             status r = 429 \<and> (''Retry-After'', ''60'') \<in> set (headers r)"
    by blast+
  have "(0 :: nat) < 100" by simp
  with f v0 have r0: "\<exists>r. ?responses ! 0 = Inr r \<and> status r = 200" by blast
  have "(99 :: nat) < 100" by simp
  with f v99 have r99: "\<exists>r. ?responses ! 99 = Inr r \<and> status r = 200" by blast
  from r0 r99 l show ?thesis by blast
qed

subsection \<open>Claims about the client-side cache\<close>

text \<open>
  C7 as stated (for every stored translation value, \<open>setToCache\<close> followed by
  \<open>getFromCache\<close> returns it) is false for the empty translation: both tiers test the
  value they find for truthiness, so an empty string that was stored is reported as a
  miss.
\<close>

theorem setToCache_empty_translation_lost:
  "fst (getFromCache workingBrowser (setToCache workingBrowser emptyCache ''Hello'' ''fr'' '''')
          ''Hello'' ''fr'') = None"
  by (simp add: getFromCache_def setToCache_def Let_def workingBrowser_def emptyCache_def)

text \<open>
  C7, amended. For every \<open>(text, targetLang)\<close> pair and every stored translation that
  is not the empty string, \<open>setToCache\<close> followed by \<open>getFromCache\<close> returns exactly
  the stored translation, whatever the state of the cache before and whether or not the
  persistent store works.
\<close>

theorem setToCache_getFromCache_roundtrip:
  "translation \<noteq> [] \<Longrightarrow>
   fst (getFromCache env' (setToCache env cache text targetLang translation) text targetLang)
     = Some translation"
  by (simp add: getFromCache_def setToCache_def Let_def)

theorem setToCache_getFromCache_roundtrip_witness:
  "fst (getFromCache workingBrowser (setToCache workingBrowser emptyCache ''Hello'' ''fr'' ''Bonjour'')
          ''Hello'' ''fr'') = Some ''Bonjour''"
proof -
  have "''Bonjour'' \<noteq> ([] :: string)" by simp
  then show ?thesis by (rule setToCache_getFromCache_roundtrip)
qed






subsection \<open>Facts about language codes and the language preference\<close>

lemma lower_not_upper: "list_all (\<lambda>d. d \<notin> set upperLetters) lowerLetters"
  by code_simp

lemma hyphen_not_letter: "CHR ''-'' \<notin> set upperLetters" "CHR ''-'' \<notin> set lowerLetters"
  by code_simp+

lemma toLowerChar_alt:
  "toLowerChar c = (case map_of (zip upperLetters lowerLetters) c of Some l \<Rightarrow> l | None \<Rightarrow> c)"
  by (simp only: toLowerChar_def upperLetters_def lowerLetters_def)

lemma length_letters: "length upperLetters = length lowerLetters"
  by (simp add: upperLetters_def lowerLetters_def)

lemma toLowerChar_notin: "c \<notin> set upperLetters \<Longrightarrow> toLowerChar c = c"
proof -
  assume "c \<notin> set upperLetters"
  then have "c \<notin> fst ` set (zip upperLetters lowerLetters)"
    by (metis (no_types, lifting) imageE set_zip_leftD prod.collapse)
  then have "map_of (zip upperLetters lowerLetters) c = None"
    by (simp add: map_of_eq_None_iff)
  then show ?thesis by (simp add: toLowerChar_alt)
qed

lemma toLowerChar_cases:
  "toLowerChar c = c \<or> (c \<in> set upperLetters \<and> toLowerChar c \<in> set lowerLetters)"
proof (cases "map_of (zip upperLetters lowerLetters) c")
  case None
  then show ?thesis by (simp add: toLowerChar_alt)
next
  case (Some l)
  then have "(c, l) \<in> set (zip upperLetters lowerLetters)" by (rule map_of_SomeD)
  then have "c \<in> set upperLetters" "l \<in> set lowerLetters"
    by (auto dest: set_zip_leftD set_zip_rightD)
  with Some show ?thesis by (simp add: toLowerChar_alt)
qed

lemma toLowerChar_idem: "toLowerChar (toLowerChar c) = toLowerChar c"
proof -
  have "toLowerChar d = d" if "d \<in> set lowerLetters" for d
  proof -
    from that lower_not_upper have "d \<notin> set upperLetters"
      by (simp add: list_all_iff)
    then show ?thesis by (rule toLowerChar_notin)
  qed
  with toLowerChar_cases [of c] show ?thesis by auto
qed

lemma toLowerChar_hyphen: "toLowerChar c = CHR ''-'' \<longleftrightarrow> c = CHR ''-''"
  using toLowerChar_cases [of c] toLowerChar_notin [of "CHR ''-''"] hyphen_not_letter
  by auto

lemma toLowerCase_idem: "toLowerCase (toLowerCase s) = toLowerCase s"
  by (simp add: toLowerCase_def toLowerChar_idem)

lemma getBaseLanguage_idem: "getBaseLanguage (getBaseLanguage locale) = getBaseLanguage locale"
proof -
  have a: "takeWhile (\<lambda>c. c \<noteq> CHR ''-'') (map toLowerChar s)
      = map toLowerChar (takeWhile (\<lambda>c. c \<noteq> CHR ''-'') s)" for s
    by (induction s) (simp_all add: toLowerChar_hyphen)
  have b: "map toLowerChar (map toLowerChar s) = map toLowerChar s" for s
    by (simp add: toLowerChar_idem)
  show ?thesis
    unfolding getBaseLanguage_def splitHyphenFirst_def toLowerCase_def a b
    by (simp add: takeWhile_idem)
qed

lemma isLanguageSupported_base: "isLanguageSupported (getBaseLanguage locale) = isLanguageSupported locale"
  by (simp add: isLanguageSupported_def getBaseLanguage_idem)

lemma setLanguage_unsupported:
  assumes "\<not> isLanguageSupported code"
  shows "\<exists>st'. setLanguage env st code = Inr st' \<and>
           currentLanguage st' = ''en'' \<and>
           warnings st' = warnings st @
             [''Language '' @ [CHR 0x27] @ code @ [CHR 0x27] @ '' is not supported, defaulting to English''] \<and>
           translationVersion st' = translationVersion st \<and>
           profileSyncs st' = profileSyncs st"
  using assms
  by (simp add: setLanguage_def isLanguageSupported_base setCurrentLanguage_def persistEffect_def
      setItem_def split: sum.splits)

lemma setLanguage_changes:
  assumes "isLanguageSupported code" and "getBaseLanguage code \<noteq> currentLanguage st"
  shows "\<exists>st'. setLanguage env st code = Inr st' \<and>
           currentLanguage st' = getBaseLanguage code \<and>
           (env_hasWindow env \<and> \<not> env_setItemThrows env \<longrightarrow>
              storedPreference st' = Some (getBaseLanguage code)) \<and>
           (\<not> (env_hasWindow env \<and> \<not> env_setItemThrows env) \<longrightarrow>
              storedPreference st' = storedPreference st) \<and>
           profileSyncs st' = profileSyncs st @ [getBaseLanguage code] \<and>
           translationVersion st' = translationVersion st + 1 \<and>
           warnings st' = warnings st"
  using assms
  by (simp add: setLanguage_def isLanguageSupported_base setCurrentLanguage_def persistEffect_def
      setItem_def syncToProfile_def postLanguage_def Let_def split: sum.splits sync_outcome.splits)

lemma setLanguage_same:
  assumes "isLanguageSupported code" and "getBaseLanguage code = currentLanguage st"
  shows "setLanguage env st code = Inr st"
proof -
  from assms(1) have "isLanguageSupported (getBaseLanguage code)"
    by (simp only: isLanguageSupported_base)
  with assms(2) show ?thesis
    by (simp add: setLanguage_def Let_def)
qed

subsection \<open>Claims about the language preference\<close>



lemma isLanguageSupported_accepted:
  "isLanguageSupported locale \<Longrightarrow> acceptedLanguage (getBaseLanguage locale)"
  by (auto simp: isLanguageSupported_def acceptedLanguage_def Let_def)

lemma getInitialLanguage_accepted:
  "acceptedLanguage (getInitialLanguage serverLanguage window getItemFails stored browserLang)"
  by (simp add: getInitialLanguage_def isLanguageSupported_accepted)
     (simp add: acceptedLanguage_def)

lemma setLanguage_accepted:
  assumes "acceptedLanguage (currentLanguage st)" and "setLanguage env st code = Inr st'"
  shows "acceptedLanguage (currentLanguage st')"
proof (cases "isLanguageSupported code")
  case False
  with setLanguage_unsupported [of code env st] assms(2) have "currentLanguage st' = ''en''"
    by auto
  then show ?thesis by (simp add: acceptedLanguage_def)
next
  case True
  show ?thesis
  proof (cases "getBaseLanguage code = currentLanguage st")
    case same: True
    with True assms show ?thesis by (simp add: setLanguage_same)
  next
    case False
    with True setLanguage_changes [of code st env] assms(2)
    have "currentLanguage st' = getBaseLanguage code" by auto
    with True show ?thesis by (simp add: isLanguageSupported_accepted)
  qed
qed

lemma normalizedSupported_base:
  "isLanguageSupported locale \<Longrightarrow> normalizedSupported (getBaseLanguage locale)"
  by (simp add: normalizedSupported_def isLanguageSupported_base getBaseLanguage_idem)

lemma normalizedSupported_en: "normalizedSupported ''en''"
proof -
  have "getBaseLanguage ''en'' = ''en''"
    by (simp add: getBaseLanguage_def toLowerCase_def toLowerChar_def splitHyphenFirst_def)
  then show ?thesis
    by (simp add: normalizedSupported_def isLanguageSupported_def registryCodes_def
        SUPPORTED_LANGUAGES_def)
qed

lemma getInitialLanguage_normalized:
  "normalizedSupported (getInitialLanguage serverLanguage window getItemFails stored browserLang)"
  by (simp add: getInitialLanguage_def normalizedSupported_base normalizedSupported_en)

lemma setLanguage_normalized:
  assumes "normalizedSupported (currentLanguage st)" and "setLanguage env st code = Inr st'"
  shows "normalizedSupported (currentLanguage st')"
proof (cases "isLanguageSupported code")
  case False
  with setLanguage_unsupported [of code env st] assms(2) have "currentLanguage st' = ''en''"
    by auto
  then show ?thesis by (simp add: normalizedSupported_en)
next
  case True
  show ?thesis
  proof (cases "getBaseLanguage code = currentLanguage st")
    case same: True
    with True assms show ?thesis by (simp add: setLanguage_same)
  next
    case False
    with True setLanguage_changes [of code st env] assms(2)
    have "currentLanguage st' = getBaseLanguage code" by auto
    with True show ?thesis by (simp add: normalizedSupported_base)
  qed
qed

lemma setLanguage_current_again:
  assumes "normalizedSupported (currentLanguage st)"
  shows "setLanguage env st (currentLanguage st) = Inr st"
  using assms by (intro setLanguage_same) (simp_all add: normalizedSupported_def)

text \<open>
  C10 (the current language is always \<open>en\<close> or a base code contained in the registry)
  does not hold of the code: \<open>isLanguageSupported\<close> tests membership with the operator
  \<open>in\<close>, which also accepts \<open>constructor\<close>, a property that the registry object
  inherits. Both \<open>setLanguage\<close> and \<open>getInitialLanguage\<close> (from the stored
  preference) then make \<open>constructor\<close> the current language.
\<close>

theorem currentLanguage_outside_registry:
  "isLanguageSupported ''constructor'' \<and>
   ''constructor'' \<notin> set registryCodes \<and>
   (\<exists>st'. setLanguage quietEnv (initialState ''en'' None) ''constructor'' = Inr st' \<and>
          currentLanguage st' = ''constructor'') \<and>
   getInitialLanguage None True False (Some ''constructor'') (Some ''en-US'') = ''constructor''"
proof -
  have b: "getBaseLanguage ''constructor'' = ''constructor''"
    by (simp add: getBaseLanguage_def toLowerCase_def toLowerChar_def splitHyphenFirst_def)
  have s: "isLanguageSupported ''constructor''"
    by (simp add: isLanguageSupported_def b objectPrototypeKeys_def)
  have r: "''constructor'' \<notin> set registryCodes"
    by (simp add: registryCodes_def SUPPORTED_LANGUAGES_def)
  have c: "\<exists>st'. setLanguage quietEnv (initialState ''en'' None) ''constructor'' = Inr st' \<and>
          currentLanguage st' = ''constructor''"
    using setLanguage_changes [of "''constructor''" "initialState ''en'' None" quietEnv] s
    by (auto simp: b initialState_def)
  have i: "getInitialLanguage None True False (Some ''constructor'') (Some ''en-US'') = ''constructor''"
    by (simp add: getInitialLanguage_def s b)
  from s r c i show ?thesis by blast
qed

subsection \<open>Facts about the flush of the queue\<close>












lemma flushQueue_queue: "requestQueue (flushQueue env api st) = []"
  by (simp add: flushQueue_def Let_def)









subsection \<open>Claim about the settlement of queued promises\<close>



subsection \<open>Claim about the switch to the default language\<close>

text \<open>
  C4 (a switch from a non-default language to the default restores the text and the
  translatable attributes of every marked node and clears all its markers) does not
  hold of the code. \<open>mixedParagraph\<close> is what a scan and the translation of its targets
  make of \<open>cleanParagraph\<close>, whose text is \<open>Click here now\<close>. The switch back runs
  \<open>revertTranslations\<close>. Its assignment to the \<open>textContent\<close> of the paragraph
  removes the span from the document; the second pass looks for marked attributes in
  the document only, so the span, a marked node before the switch, keeps its translated
  title and its \<open>data-original-title\<close> marker, and the document is left with the text
  \<open>Click\<close> alone.
\<close>

theorem revertTranslations_misses_removed_element:
  "applyTranslations ''fr'' toFrench (extractTargets ''fr'' cleanParagraph) cleanParagraph
     = mixedParagraph \<and>
   textContent (document cleanParagraph) = ''Click here now'' \<and>
   fst (languageEffect \<lparr>previousLanguage = ''fr'', isInitialMount = False\<rparr> ''en'') = RevertTranslations \<and>
   3 \<in> set (querySelectorAll ''data-original-title'' (document mixedParagraph)) \<and>
   findInState (revertTranslations mixedParagraph) 3
     = Some (Element 3 ''SPAN'' [(''title'', ''Aide''), (''data-original-title'', ''Help'')] []
               [TextNode 7 ''here'']) \<and>
   findNode 3 (document (revertTranslations mixedParagraph)) = None \<and>
   textContent (document (revertTranslations mixedParagraph)) = ''Click ''"
proof -
  have a: "applyTranslations ''fr'' toFrench (extractTargets ''fr'' cleanParagraph) cleanParagraph
      = mixedParagraph"
    by code_simp
  have c: "textContent (document cleanParagraph) = ''Click here now''"
    by (simp add: cleanParagraph_def)
  have r: "revertTranslations mixedParagraph =
    \<lparr>document = Element 0 ''BODY'' [] [] [Element 1 ''P'' [] [] [TextNode 6 ''Click '']],
     detached = [TextNode 2 ''Cliquez '',
       Element 3 ''SPAN'' [(''title'', ''Aide''), (''data-original-title'', ''Help'')] []
         [TextNode 7 ''here''],
       TextNode 5 '' maintenant'', TextNode 4 ''ici''],
     nextNode = 8, pendingOurMutations = [2, 4, 5],
     translatedNodes = [(2, ''fr''), (4, ''fr''), (5, ''fr'')]\<rparr>"
    by (simp add: revertTranslations_def mixedParagraph_def revertText_def findInState_def
        setTextContent_def updateInState_def Let_def revertAttributes_def revertAttribute_def
        TRANSLATABLE_ATTRS_def weakSetAdd_def)
  have e: "fst (languageEffect \<lparr>previousLanguage = ''fr'', isInitialMount = False\<rparr> ''en'')
      = RevertTranslations"
    by (simp add: languageEffect_def)
  have m: "3 \<in> set (querySelectorAll ''data-original-title'' (document mixedParagraph))"
    by (simp add: mixedParagraph_def)
  show ?thesis
    unfolding r using a c e m by (simp add: findInState_def)
qed

end
